theory Spec2Isabelle
  imports Complex_Main "HOL-Library.List_Lexorder" "HOL-Library.Char_ord" "HOL-Library.Multiset"
begin

section \<open>The store behind \<open>db.py\<close>\<close>

text \<open>
  \<open>db.py\<close> keeps two tables in an SQLite file and reaches them through one short-lived
  connection per call. The model has three layers:
  \<^item> the tables and the SQL statements of the source, as functions on a \<open>database\<close>;
  \<^item> connections: opening, \<open>BEGIN\<close>, commit, rollback and close, on a \<open>world\<close> that
    holds the file's content and the number of connections that are open;
  \<^item> the Python functions, with every \<open>try\<close>/\<open>except\<close> of the source as a case split
    on the result of the statements.

  Modelling decisions:
  \<^item> Text is a \<open>string\<close>: the UTF-8 bytes of the Python \<open>str\<close>. SQLite compares text
    bytewise (collation BINARY), which is the lexicographic order on \<open>char list\<close>.
  \<^item> Integers are Python's unbounded \<open>int\<close>. An integer parameter outside 64 bits cannot
    be bound to a statement: \<open>cursor.execute\<close> raises \<open>OverflowError\<close>.
  \<^item> A \<open>REAL\<close> value of the store is a value of the type parameter \<open>'p\<close>. A Python float
    is such a value or NaN, which is bound as \<open>NULL\<close>. The arithmetic of the report on
    \<open>REAL\<close> values belongs to the engine.
  \<^item> The schema exists or not (\<open>disk = None\<close>: \<open>init_db\<close> has not run). A statement on a
    missing table raises \<open>OperationalError\<close>; a violated constraint raises
    \<open>IntegrityError\<close>. A statement that raises changes nothing.
  \<^item> A connection enforces \<open>FOREIGN KEY\<close> clauses only when its \<open>foreign_keys\<close> setting is
    on. SQLite opens every connection with the setting off, and \<open>get_connection\<close> issues
    \<open>PRAGMA journal_mode=WAL\<close> only.
  \<^item> What SQL leaves to the engine is a parameter, the \<open>engine\<close>: the order of rows with
    equal names under \<open>ORDER BY p.name\<close>, the order in which an aggregate visits the
    selected rows, the largest number of \<open>?\<close> variables in a statement, and the
    floating-point aggregates. The statements rely on what SQL guarantees of it
    (\<open>engine_ok\<close>) and on nothing else.
  \<^item> A counter of \<open>sqlite_sequence\<close> grows by one with each insert, so it stays far from
    the largest rowid, \<open>2 ^ 63 - 1\<close>: an insert always finds a rowid.
  \<^item> One caller at a time: a call opens its connection, runs its statements and returns
    before the next call starts. \<open>open_conns\<close> counts the connections that were opened and
    not closed by the function that opened them.
\<close>

datatype error = IntegrityError | OperationalError | OverflowError

text \<open>The integers that SQLite stores, and that the \<open>sqlite3\<close> module binds.\<close>

definition int64 :: "int \<Rightarrow> bool" where
  "int64 i \<longleftrightarrow> - (2 ^ 63) \<le> i \<and> i < 2 ^ 63"

text \<open>A Python float as a parameter of a statement.\<close>

datatype 'p pyfloat = Float 'p | NaN

definition bind_float :: "'p pyfloat \<Rightarrow> 'p option" where
  "bind_float x = (case x of Float v \<Rightarrow> Some v | NaN \<Rightarrow> None)"

record 'p product =
  product_id :: int
  name :: string
  price :: 'p
  stock :: int
  category_id :: int

text \<open>A row of the listings: the product's columns and \<open>c.name as category_name\<close>.\<close>

record 'p product_row = "'p product" +
  category_name :: string

record 'p database =
  Categories :: "(int \<times> string) list"
  Products :: "'p product list"
  sqlite_sequence :: "(string \<times> int) list"

record 'p world =
  disk :: "'p database option"
  open_conns :: nat

text \<open>
  \<open>saved\<close> is the content of the file when the connection's open transaction began;
  \<open>None\<close> outside a transaction (\<open>isolation_level=None\<close>: every statement commits on its
  own unless \<open>BEGIN\<close> was executed).
\<close>

record 'p connection =
  foreign_keys :: bool
  saved :: "'p database option option"

subsection \<open>The engine\<close>

text \<open>The three \<open>WHERE\<close> clauses of the listings and of the report.\<close>

datatype selection = All_products | One_category int | In_categories "int list"

fun selects :: "selection \<Rightarrow> 'p product \<Rightarrow> bool" where
  "selects All_products p = True"
| "selects (One_category c) p = (category_id p = c)"
| "selects (In_categories ids) p = (category_id p \<in> set ids)"

text \<open>
  \<^item> \<open>max_variables\<close>: the largest number of \<open>?\<close> in one statement
    (\<open>SQLITE_MAX_VARIABLE_NUMBER\<close>);
  \<^item> \<open>listing_order\<close>: the order in which a listing with \<open>ORDER BY p.name\<close> returns the
    joined rows of the selection;
  \<^item> \<open>scan_order\<close>: the order in which the aggregates of the report visit the selected
    products;
  \<^item> \<open>round_avg\<close>: \<open>ROUND(AVG(price), 2)\<close> of the prices of a non-empty group, in the
    order visited, \<open>None\<close> for \<open>NULL\<close>;
  \<^item> \<open>sum_value\<close>: \<open>SUM(price * stock)\<close> of a non-empty group, \<open>None\<close> for \<open>NULL\<close>;
  \<^item> \<open>py_round2\<close> and \<open>zero_real\<close>: Python's \<open>round(x, 2)\<close> on a float, and \<open>0.0\<close>.
\<close>

record 'p engine =
  max_variables :: nat
  listing_order :: "selection \<Rightarrow> 'p product_row list \<Rightarrow> 'p product_row list"
  scan_order :: "selection \<Rightarrow> 'p product list \<Rightarrow> 'p product list"
  round_avg :: "'p list \<Rightarrow> 'p option"
  sum_value :: "('p \<times> int) list \<Rightarrow> 'p option"
  py_round2 :: "'p \<Rightarrow> 'p"
  zero_real :: 'p

text \<open>
  What SQL guarantees: a listing holds the rows of the selection, each once, in ascending
  order of the name; an aggregate visits each selected row once.
\<close>

definition engine_ok :: "'p engine \<Rightarrow> bool" where
  "engine_ok eng \<longleftrightarrow>
     (\<forall>sel rows. mset (listing_order eng sel rows) = mset rows \<and>
                 sorted (map name (listing_order eng sel rows))) \<and>
     (\<forall>sel rows. mset (scan_order eng sel rows) = mset rows)"

subsection \<open>Rowids of \<open>AUTOINCREMENT\<close> tables\<close>

definition seq_of :: "string \<Rightarrow> (string \<times> int) list \<Rightarrow> int" where
  "seq_of tbl seqs = (case map_of seqs tbl of None \<Rightarrow> 0 | Some s \<Rightarrow> s)"

fun seq_write :: "string \<Rightarrow> int \<Rightarrow> (string \<times> int) list \<Rightarrow> (string \<times> int) list" where
  "seq_write tbl v [] = [(tbl, v)]"
| "seq_write tbl v (r # rs) = (if fst r = tbl then (tbl, v) # rs else r # seq_write tbl v rs)"

definition max_rowid :: "int list \<Rightarrow> int" where
  "max_rowid ids = fold max ids 0"

text \<open>
  The rowid of a new row: one more than the largest rowid the table holds or
  \<open>sqlite_sequence\<close> remembers for it.
\<close>

definition next_rowid :: "string \<Rightarrow> int list \<Rightarrow> (string \<times> int) list \<Rightarrow> int" where
  "next_rowid tbl ids seqs = max (seq_of tbl seqs) (max_rowid ids) + 1"

subsection \<open>The SQL statements\<close>

type_synonym ('p, 'a) statement = "'p database \<Rightarrow> error + ('a \<times> 'p database)"

text \<open>\<open>CREATE TABLE IF NOT EXISTS\<close> for both tables, and the two indexes.\<close>

definition create_schema :: "'p database option \<Rightarrow> 'p database option" where
  "create_schema dk =
     (case dk of
        None \<Rightarrow> Some \<lparr>Categories = [], Products = [], sqlite_sequence = []\<rparr>
      | Some d \<Rightarrow> Some d)"

text \<open>\<open>SELECT category_id, name FROM Categories ORDER BY category_id\<close>\<close>

definition select_categories :: "('p, (int \<times> string) list) statement" where
  "select_categories d = Inr (sort_key fst (Categories d), d)"

text \<open>\<open>INSERT INTO Categories (name) VALUES (?)\<close>, with \<open>name TEXT UNIQUE NOT NULL\<close>.\<close>

definition insert_category :: "string \<Rightarrow> ('p, unit) statement" where
  "insert_category nm d =
     (if nm \<in> set (map snd (Categories d)) then Inl IntegrityError
      else
        let rowid = next_rowid ''Categories'' (map fst (Categories d)) (sqlite_sequence d)
        in Inr ((), d\<lparr>Categories := Categories d @ [(rowid, nm)],
                      sqlite_sequence := seq_write ''Categories'' rowid (sqlite_sequence d)\<rparr>))"

text \<open>\<open>SELECT COUNT( * ) FROM Products WHERE category_id = ?\<close>\<close>

definition count_products_of :: "int \<Rightarrow> ('p, nat) statement" where
  "count_products_of cid d = Inr (length (filter (\<lambda>p. category_id p = cid) (Products d)), d)"

text \<open>
  \<open>DELETE FROM Categories WHERE category_id = ?\<close>. With foreign keys enforced, the
  delete of a category that a product references is refused.
\<close>

definition delete_from_categories :: "bool \<Rightarrow> int \<Rightarrow> ('p, unit) statement" where
  "delete_from_categories fk cid d =
     (if fk \<and> cid \<in> set (map fst (Categories d)) \<and> cid \<in> set (map category_id (Products d))
      then Inl IntegrityError
      else Inr ((), d\<lparr>Categories := filter (\<lambda>c. fst c \<noteq> cid) (Categories d)\<rparr>))"

text \<open>\<open>SELECT COUNT( * ) FROM Categories\<close> and \<open>SELECT COUNT( * ) FROM Products\<close>\<close>

definition count_categories :: "('p, nat) statement" where
  "count_categories d = Inr (length (Categories d), d)"

definition count_products :: "('p, nat) statement" where
  "count_products d = Inr (length (Products d), d)"

text \<open>
  \<open>DELETE FROM sqlite_sequence WHERE name = "T"\<close> and
  \<open>INSERT INTO sqlite_sequence (name, seq) VALUES ("T", 0)\<close>
\<close>

definition delete_from_sequence :: "string \<Rightarrow> ('p, unit) statement" where
  "delete_from_sequence tbl d =
     Inr ((), d\<lparr>sqlite_sequence := filter (\<lambda>r. fst r \<noteq> tbl) (sqlite_sequence d)\<rparr>)"

definition insert_into_sequence :: "string \<Rightarrow> int \<Rightarrow> ('p, unit) statement" where
  "insert_into_sequence tbl v d =
     Inr ((), d\<lparr>sqlite_sequence := sqlite_sequence d @ [(tbl, v)]\<rparr>)"

text \<open>
  \<open>INSERT INTO Products (name, price, stock, category_id) VALUES (?, ?, ?, ?)\<close>, with
  \<open>price REAL NOT NULL\<close> and
  \<open>FOREIGN KEY (category_id) REFERENCES Categories(category_id)\<close>. The price is the bound
  value: \<open>None\<close> is \<open>NULL\<close>.
\<close>

definition insert_product ::
  "bool \<Rightarrow> string \<Rightarrow> 'p option \<Rightarrow> int \<Rightarrow> int \<Rightarrow> ('p, unit) statement" where
  "insert_product fk nm pr st cid d =
     (case pr of
        None \<Rightarrow> Inl IntegrityError
      | Some v \<Rightarrow>
          if fk \<and> cid \<notin> set (map fst (Categories d)) then Inl IntegrityError
          else
            let rowid = next_rowid ''Products'' (map product_id (Products d)) (sqlite_sequence d)
            in Inr ((), d\<lparr>Products := Products d @
                            [\<lparr>product_id = rowid, name = nm, price = v, stock = st,
                              category_id = cid\<rparr>],
                          sqlite_sequence :=
                            seq_write ''Products'' rowid (sqlite_sequence d)\<rparr>))"

text \<open>
  \<open>UPDATE Products SET name = ?, price = ?, stock = ?, category_id = ? WHERE product_id = ?\<close>.
  The constraints are checked on the rows that the statement changes: none when no row
  has the id.
\<close>

definition update_products ::
  "bool \<Rightarrow> int \<Rightarrow> string \<Rightarrow> 'p option \<Rightarrow> int \<Rightarrow> int \<Rightarrow> ('p, unit) statement" where
  "update_products fk pid nm pr st cid d =
     (if pid \<notin> set (map product_id (Products d)) then Inr ((), d)
      else
        case pr of
          None \<Rightarrow> Inl IntegrityError
        | Some v \<Rightarrow>
            if fk \<and> cid \<notin> set (map fst (Categories d)) then Inl IntegrityError
            else Inr ((), d\<lparr>Products :=
                   map (\<lambda>p. if product_id p = pid
                            then p\<lparr>name := nm, price := v, stock := st, category_id := cid\<rparr>
                            else p) (Products d)\<rparr>))"

text \<open>\<open>DELETE FROM Products WHERE product_id = ?\<close>\<close>

definition delete_from_products :: "int \<Rightarrow> ('p, unit) statement" where
  "delete_from_products pid d =
     Inr ((), d\<lparr>Products := filter (\<lambda>p. product_id p \<noteq> pid) (Products d)\<rparr>)"

text \<open>
  The listings: \<open>SELECT p.*, c.name as category_name FROM Products p JOIN Categories c ON
  p.category_id = c.category_id [WHERE ...] ORDER BY p.name\<close>. The inner join yields one row
  for every pair of a product and a category with the product's \<open>category_id\<close>; the engine
  returns these rows in an order of its own among those that \<open>ORDER BY\<close> allows.
\<close>

definition join_row :: "'p product \<Rightarrow> int \<times> string \<Rightarrow> 'p product_row" where
  "join_row p c =
     \<lparr>product_id = product_id p, name = name p, price = price p, stock = stock p,
      category_id = category_id p, category_name = snd c\<rparr>"

definition join_categories :: "'p database \<Rightarrow> 'p product list \<Rightarrow> 'p product_row list" where
  "join_categories d ps =
     concat (map (\<lambda>p. map (join_row p) (filter (\<lambda>c. category_id p = fst c) (Categories d))) ps)"

definition select_products ::
  "'p engine \<Rightarrow> selection \<Rightarrow> ('p, 'p product_row list) statement" where
  "select_products eng sel d =
     Inr (listing_order eng sel (join_categories d (filter (selects sel) (Products d))), d)"

text \<open>The same join with \<open>WHERE p.product_id = ?\<close> and no \<open>ORDER BY\<close>.\<close>

definition select_product_by_id :: "int \<Rightarrow> ('p, 'p product_row list) statement" where
  "select_product_by_id pid d =
     Inr (join_categories d (filter (\<lambda>p. product_id p = pid) (Products d)), d)"

text \<open>
  \<open>SUM\<close> of integers: the exact sum, and the error \<open>integer overflow\<close> when the running sum
  leaves 64 bits at some row.
\<close>

fun sum_int64 :: "int \<Rightarrow> int list \<Rightarrow> int option" where
  "sum_int64 acc [] = Some acc"
| "sum_int64 acc (x # xs) = (if int64 (acc + x) then sum_int64 (acc + x) xs else None)"

text \<open>
  \<open>SELECT ROUND(AVG(price), 2), SUM(stock), SUM(price * stock) FROM Products [WHERE ...]\<close>:
  one row; each aggregate is \<open>NULL\<close> when no row is selected.
\<close>

definition select_report ::
  "'p engine \<Rightarrow> selection \<Rightarrow> ('p, 'p option \<times> int option \<times> 'p option) statement" where
  "select_report eng sel d =
     (let rows = scan_order eng sel (filter (selects sel) (Products d))
      in if rows = [] then Inr ((None, None, None), d)
         else
           case sum_int64 0 (map stock rows) of
             None \<Rightarrow> Inl OperationalError
           | Some s \<Rightarrow>
               Inr ((round_avg eng (map price rows), Some s,
                     sum_value eng (map (\<lambda>p. (price p, stock p)) rows)), d))"

subsection \<open>Connections\<close>

text \<open>
  \<open>get_connection\<close>: \<open>sqlite3.connect(DB_PATH, check_same_thread=False,
  isolation_level=None)\<close>, the row factory and \<open>PRAGMA journal_mode=WAL\<close>. Nothing turns
  the enforcement of foreign keys on.
\<close>

definition get_connection :: "'p world \<Rightarrow> 'p connection \<times> 'p world" where
  "get_connection w =
     (\<lparr>foreign_keys = False, saved = None\<rparr>, w\<lparr>open_conns := open_conns w + 1\<rparr>)"

text \<open>\<open>cursor.execute('BEGIN TRANSACTION')\<close>\<close>

definition begin_transaction :: "'p connection \<Rightarrow> 'p world \<Rightarrow> 'p connection" where
  "begin_transaction conn w = conn\<lparr>saved := Some (disk w)\<rparr>"

definition commit :: "'p connection \<Rightarrow> 'p connection" where
  "commit conn = conn\<lparr>saved := None\<rparr>"

definition rollback :: "'p connection \<Rightarrow> 'p world \<Rightarrow> 'p connection \<times> 'p world" where
  "rollback conn w =
     (case saved conn of
        None \<Rightarrow> (conn, w)
      | Some dk \<Rightarrow> (conn\<lparr>saved := None\<rparr>, w\<lparr>disk := dk\<rparr>))"

text \<open>Closing a connection abandons its open transaction.\<close>

definition close :: "'p connection \<Rightarrow> 'p world \<Rightarrow> 'p world" where
  "close conn w = (let (conn', w') = rollback conn w in w'\<lparr>open_conns := open_conns w' - 1\<rparr>)"

text \<open>
  \<open>cursor.execute\<close> of a statement on the tables, with its integer parameters. The
  statement is prepared first: \<open>OperationalError\<close> when the schema is missing. Then the
  parameters are bound: \<open>OverflowError\<close> for an integer outside 64 bits. Then it runs, and
  raises what the statement raises. When it raises, nothing is written.
\<close>

definition execute ::
  "int list \<Rightarrow> ('p, 'a) statement \<Rightarrow> 'p world \<Rightarrow> (error + 'a) \<times> 'p world" where
  "execute params stmt w =
     (case disk w of
        None \<Rightarrow> (Inl OperationalError, w)
      | Some d \<Rightarrow>
          if \<not> list_all int64 params then (Inl OverflowError, w)
          else
            (case stmt d of
               Inl e \<Rightarrow> (Inl e, w)
             | Inr (a, d') \<Rightarrow> (Inr a, w\<lparr>disk := Some d'\<rparr>)))"

text \<open>
  Statements in sequence inside one \<open>try\<close> block: the first that raises ends the block.
\<close>

definition and_then ::
  "(error + 'a) \<times> 'p world \<Rightarrow> ('a \<Rightarrow> 'p world \<Rightarrow> (error + 'b) \<times> 'p world)
     \<Rightarrow> (error + 'b) \<times> 'p world" where
  "and_then r f = (case r of (Inl e, w) \<Rightarrow> (Inl e, w) | (Inr a, w) \<Rightarrow> f a w)"

section \<open>The functions of \<open>db.py\<close>\<close>

text \<open>
  A function that can let an exception out returns \<open>error + result\<close> beside the world;
  one that catches every \<open>Exception\<close> returns its boolean.
\<close>

text \<open>
  \<open>init_db\<close>: the \<open>CREATE ... IF NOT EXISTS\<close> statements in one transaction. They do not
  fail in the model, so the \<open>except\<close> clause (roll back and raise again) has no case here;
  the \<open>finally\<close> clause closes the connection.
\<close>

definition init_db :: "'p world \<Rightarrow> 'p world" where
  "init_db w0 =
     (let (conn, w) = get_connection w0;
          conn = begin_transaction conn w;
          w = w\<lparr>disk := create_schema (disk w)\<rparr>;
          conn = commit conn
      in close conn w)"

definition get_all_categories :: "'p world \<Rightarrow> (error + (int \<times> string) list) \<times> 'p world" where
  "get_all_categories w0 =
     (let (conn, w) = get_connection w0
      in case execute [] select_categories w of
           (Inl e, w) \<Rightarrow> (Inl e, w)
         | (Inr categories, w) \<Rightarrow> (Inr categories, close conn w))"

text \<open>\<open>except sqlite3.IntegrityError\<close>: any other exception leaves the function.\<close>

definition add_category :: "string \<Rightarrow> 'p world \<Rightarrow> (error + bool) \<times> 'p world" where
  "add_category nm w0 =
     (let (conn, w) = get_connection w0
      in case execute [] (insert_category nm) w of
           (Inr u, w) \<Rightarrow> (Inr True, close (commit conn) w)
         | (Inl IntegrityError, w) \<Rightarrow> (Inr False, close conn w)
         | (Inl e, w) \<Rightarrow> (Inl e, w))"

text \<open>The \<open>except Exception\<close> clause of the guarded functions: roll back, close, \<open>False\<close>.\<close>

definition rollback_close :: "'p connection \<Rightarrow> 'p world \<Rightarrow> 'p world" where
  "rollback_close conn w = (let (conn', w') = rollback conn w in close conn' w')"

definition delete_category :: "int \<Rightarrow> 'p world \<Rightarrow> bool \<times> 'p world" where
  "delete_category cid w0 =
     (let (conn, w) = get_connection w0;
          conn = begin_transaction conn w;
          body =
            and_then (execute [cid] (count_products_of cid) w) (\<lambda>product_count w.
              if product_count > 0 then (Inr False, rollback_close conn w)
              else
                and_then (execute [cid] (delete_from_categories (foreign_keys conn) cid) w)
                  (\<lambda>u w.
                and_then (execute [] count_categories w) (\<lambda>remaining_count w.
                and_then
                  (if remaining_count = 0
                   then and_then (execute [] (delete_from_sequence ''Categories'') w) (\<lambda>u w.
                          execute [] (insert_into_sequence ''Categories'' 0) w)
                   else (Inr (), w)) (\<lambda>u w.
                (Inr True, close (commit conn) w)))))
      in case body of
           (Inr b, w) \<Rightarrow> (b, w)
         | (Inl e, w) \<Rightarrow> (False, rollback_close conn w))"

definition get_all_products ::
  "'p engine \<Rightarrow> 'p world \<Rightarrow> (error + 'p product_row list) \<times> 'p world" where
  "get_all_products eng w0 =
     (let (conn, w) = get_connection w0
      in case execute [] (select_products eng All_products) w of
           (Inl e, w) \<Rightarrow> (Inl e, w)
         | (Inr products, w) \<Rightarrow> (Inr products, close conn w))"

text \<open>
  \<open>if category_ids and len(category_ids) > 0\<close>: a list that is given and not empty, with
  one \<open>?\<close> for each id: the statement is not prepared (\<open>too many SQL variables\<close>, an
  \<open>OperationalError\<close>) when there are more than the engine allows.
  \<open>elif category_id\<close>: an id that is given and not \<open>0\<close>.
\<close>

definition get_products_by_category ::
  "'p engine \<Rightarrow> int option \<Rightarrow> int list option \<Rightarrow> 'p world
     \<Rightarrow> (error + 'p product_row list) \<times> 'p world" where
  "get_products_by_category eng category_id' category_ids w0 =
     (let (conn, w) = get_connection w0;
          r = (case category_ids of
                 Some (i # ids) \<Rightarrow>
                   if max_variables eng < length (i # ids) then (Inl OperationalError, w)
                   else execute (i # ids) (select_products eng (In_categories (i # ids))) w
               | _ \<Rightarrow>
                   (case category_id' of
                      Some c \<Rightarrow>
                        if c \<noteq> 0 then execute [c] (select_products eng (One_category c)) w
                        else execute [] (select_products eng All_products) w
                    | None \<Rightarrow> execute [] (select_products eng All_products) w))
      in case r of
           (Inl e, w) \<Rightarrow> (Inl e, w)
         | (Inr products, w) \<Rightarrow> (Inr products, close conn w))"

definition add_product ::
  "string \<Rightarrow> 'p pyfloat \<Rightarrow> int \<Rightarrow> int \<Rightarrow> 'p world \<Rightarrow> bool \<times> 'p world" where
  "add_product nm pr st cid w0 =
     (let (conn, w) = get_connection w0
      in case execute [st, cid]
                (insert_product (foreign_keys conn) nm (bind_float pr) st cid) w of
           (Inr u, w) \<Rightarrow> (True, close (commit conn) w)
         | (Inl e, w) \<Rightarrow> (False, close conn w))"

definition update_product ::
  "int \<Rightarrow> string \<Rightarrow> 'p pyfloat \<Rightarrow> int \<Rightarrow> int \<Rightarrow> 'p world \<Rightarrow> bool \<times> 'p world" where
  "update_product pid nm pr st cid w0 =
     (let (conn, w) = get_connection w0;
          conn = begin_transaction conn w
      in case execute [st, cid, pid]
                (update_products (foreign_keys conn) pid nm (bind_float pr) st cid) w of
           (Inr u, w) \<Rightarrow> (True, close (commit conn) w)
         | (Inl e, w) \<Rightarrow> (False, rollback_close conn w))"

definition delete_product :: "int \<Rightarrow> 'p world \<Rightarrow> bool \<times> 'p world" where
  "delete_product pid w0 =
     (let (conn, w) = get_connection w0;
          conn = begin_transaction conn w;
          body =
            and_then (execute [pid] (delete_from_products pid) w) (\<lambda>u w.
            and_then (execute [] count_products w) (\<lambda>remaining_count w.
            and_then
              (if remaining_count = 0
               then and_then (execute [] (delete_from_sequence ''Products'') w) (\<lambda>u w.
                      execute [] (insert_into_sequence ''Products'' 0) w)
               else (Inr (), w)) (\<lambda>u w.
            (Inr True, close (commit conn) w))))
      in case body of
           (Inr b, w) \<Rightarrow> (b, w)
         | (Inl e, w) \<Rightarrow> (False, rollback_close conn w))"

text \<open>\<open>cursor.fetchone()\<close>: the first row, or \<open>None\<close>.\<close>

definition fetchone :: "'a list \<Rightarrow> 'a option" where
  "fetchone rows = (case rows of [] \<Rightarrow> None | r # rs \<Rightarrow> Some r)"

definition get_product_by_id ::
  "int \<Rightarrow> 'p world \<Rightarrow> (error + 'p product_row option) \<times> 'p world" where
  "get_product_by_id pid w0 =
     (let (conn, w) = get_connection w0
      in case execute [pid] (select_product_by_id pid) w of
           (Inl e, w) \<Rightarrow> (Inl e, w)
         | (Inr rows, w) \<Rightarrow> (Inr (fetchone rows), close conn w))"

record 'p report =
  avg_price :: 'p
  total_stock :: int
  total_value :: 'p

text \<open>
  The dictionary that \<open>get_category_report\<close> builds from the row of aggregates:
  \<open>round(float(result[0]), 2)\<close> or \<open>0.0\<close>, \<open>result[1]\<close> or \<open>0\<close>, \<open>result[2]\<close> or \<open>0.0\<close>.
\<close>

definition report_dict :: "'p engine \<Rightarrow> 'p option \<times> int option \<times> 'p option \<Rightarrow> 'p report" where
  "report_dict eng result =
     \<lparr>avg_price = (case fst result of None \<Rightarrow> zero_real eng | Some a \<Rightarrow> py_round2 eng a),
      total_stock = (case fst (snd result) of None \<Rightarrow> 0 | Some s \<Rightarrow> s),
      total_value = (case snd (snd result) of None \<Rightarrow> zero_real eng | Some v \<Rightarrow> v)\<rparr>"

definition get_category_report ::
  "'p engine \<Rightarrow> int option \<Rightarrow> int list option \<Rightarrow> 'p world \<Rightarrow> (error + 'p report) \<times> 'p world" where
  "get_category_report eng category_id' category_ids w0 =
     (let (conn, w) = get_connection w0;
          r = (case category_ids of
                 Some (i # ids) \<Rightarrow>
                   if max_variables eng < length (i # ids) then (Inl OperationalError, w)
                   else execute (i # ids) (select_report eng (In_categories (i # ids))) w
               | _ \<Rightarrow>
                   (case category_id' of
                      Some c \<Rightarrow>
                        if c \<noteq> 0 then execute [c] (select_report eng (One_category c)) w
                        else execute [] (select_report eng All_products) w
                    | None \<Rightarrow> execute [] (select_report eng All_products) w))
      in case r of
           (Inl e, w) \<Rightarrow> (Inl e, w)
         | (Inr result, w) \<Rightarrow> (Inr (report_dict eng result), close conn w))"

section \<open>Notions used in the statements\<close>

text \<open>
  The invariant of a table with an \<open>AUTOINCREMENT\<close> key, on the list of its rowids in
  storage order: the rowids increase, lie between \<open>1\<close> and the table's counter in
  \<open>sqlite_sequence\<close>, and the counter of an empty table is \<open>0\<close>.
\<close>

definition wf_table :: "string \<Rightarrow> int list \<Rightarrow> (string \<times> int) list \<Rightarrow> bool" where
  "wf_table tbl ids seqs \<longleftrightarrow>
     sorted_wrt (<) ids \<and> (\<forall>i \<in> set ids. 1 \<le> i \<and> i \<le> seq_of tbl seqs) \<and>
     (ids = [] \<longrightarrow> seq_of tbl seqs = 0)"

text \<open>A well-formed store: both tables are, and the category names are unique.\<close>

definition wf_db :: "'p database \<Rightarrow> bool" where
  "wf_db d \<longleftrightarrow>
     wf_table ''Categories'' (map fst (Categories d)) (sqlite_sequence d) \<and>
     wf_table ''Products'' (map product_id (Products d)) (sqlite_sequence d) \<and>
     distinct (map snd (Categories d))"

text \<open>Referential integrity: every product's \<open>category_id\<close> is the id of a category.\<close>

definition no_orphans :: "'p database \<Rightarrow> bool" where
  "no_orphans d \<longleftrightarrow> (\<forall>p \<in> set (Products d). category_id p \<in> set (map fst (Categories d)))"

text \<open>
  What \<open>DELETE FROM sqlite_sequence WHERE name = "T"\<close> followed by
  \<open>INSERT INTO sqlite_sequence (name, seq) VALUES ("T", 0)\<close> leaves.
\<close>

definition reset_seq :: "string \<Rightarrow> (string \<times> int) list \<Rightarrow> (string \<times> int) list" where
  "reset_seq tbl seqs = filter (\<lambda>r. fst r \<noteq> tbl) seqs @ [(tbl, 0)]"

text \<open>
  The branch that \<open>get_products_by_category\<close> and \<open>get_category_report\<close> take for their two
  filter parameters.
\<close>

definition selection_of :: "int option \<Rightarrow> int list option \<Rightarrow> selection" where
  "selection_of c ids =
     (case ids of
        Some (i # is) \<Rightarrow> In_categories (i # is)
      | _ \<Rightarrow> (case c of
                Some k \<Rightarrow> if k \<noteq> 0 then One_category k else All_products
              | None \<Rightarrow> All_products))"

text \<open>
  The statement of a selection can be prepared and its parameters bound: not more ids
  than the engine has variables, and every id within 64 bits.
\<close>

fun bindable :: "'p engine \<Rightarrow> selection \<Rightarrow> bool" where
  "bindable eng All_products = True"
| "bindable eng (One_category c) = int64 c"
| "bindable eng (In_categories ids) = (length ids \<le> max_variables eng \<and> list_all int64 ids)"

text \<open>The product columns of a listing row.\<close>

definition product_of_row :: "'p product_row \<Rightarrow> 'p product" where
  "product_of_row r =
     \<lparr>product_id = product_id r, name = name r, price = price r, stock = stock r,
      category_id = category_id r\<rparr>"

text \<open>
  The stores that calls of the functions can produce from a data file without schema.
  \<open>init_db\<close> runs first (the application calls it when it starts).
\<close>

inductive reachable :: "'p world \<Rightarrow> bool" where
  start: "reachable (init_db \<lparr>disk = None, open_conns = 0\<rparr>)"
| init_again: "reachable w \<Longrightarrow> reachable (init_db w)"
| add_category: "reachable w \<Longrightarrow> reachable (snd (add_category nm w))"
| delete_category: "reachable w \<Longrightarrow> reachable (snd (delete_category cid w))"
| add_product: "reachable w \<Longrightarrow> reachable (snd (add_product nm pr st cid w))"
| update_product: "reachable w \<Longrightarrow> reachable (snd (update_product pid nm pr st cid w))"
| delete_product: "reachable w \<Longrightarrow> reachable (snd (delete_product pid w))"
| get_all_categories: "reachable w \<Longrightarrow> reachable (snd (get_all_categories w))"
| get_all_products: "reachable w \<Longrightarrow> reachable (snd (get_all_products eng w))"
| get_products_by_category:
    "reachable w \<Longrightarrow> reachable (snd (get_products_by_category eng c ids w))"
| get_product_by_id: "reachable w \<Longrightarrow> reachable (snd (get_product_by_id pid w))"
| get_category_report: "reachable w \<Longrightarrow> reachable (snd (get_category_report eng c ids w))"

section \<open>An engine with binary64 arithmetic\<close>

text \<open>
  The \<open>REAL\<close> values that the store holds are the finite binary64 numbers, here by their
  rational value, and the two infinities. Negative zero is not told from zero (Python
  finds them equal). NaN is not a value of the store: the engine turns it into \<open>NULL\<close>.
\<close>

datatype real64 = Fin rat | PInf | NInf

fun bit_length :: "nat \<Rightarrow> nat" where
  "bit_length n = (if n = 0 then 0 else Suc (bit_length (n div 2)))"

definition pow2 :: "int \<Rightarrow> rat" where
  "pow2 e = (if 0 \<le> e then 2 ^ nat e else 1 / 2 ^ nat (- e))"

text \<open>The exponent \<open>e\<close> with \<open>2 ^ e \<le> x < 2 ^ (e + 1)\<close>, for a positive \<open>x\<close>.\<close>

definition floor_log2 :: "rat \<Rightarrow> int" where
  "floor_log2 x =
     (let (a, b) = quotient_of x;
          e = int (bit_length (nat a)) - int (bit_length (nat b))
      in if pow2 e \<le> x then e else e - 1)"

definition round_half_even :: "rat \<Rightarrow> int" where
  "round_half_even q =
     (let f = \<lfloor>q\<rfloor>; r = q - of_int f
      in if r < 1 / 2 then f else if 1 / 2 < r then f + 1 else if even f then f else f + 1)"

text \<open>
  Rounding to binary64, to nearest and ties to even: 53 bits of precision, exponents from
  \<open>-1022\<close> (below it the subnormal numbers), infinity from \<open>2 ^ 1024\<close> on.
\<close>

definition rnd64 :: "rat \<Rightarrow> real64" where
  "rnd64 x =
     (if x = 0 then Fin 0
      else
        let e = max (floor_log2 \<bar>x\<bar>) (- 1022);
            u = pow2 (e - 52);
            y = of_int (round_half_even (x / u)) * u
        in if pow2 1024 \<le> \<bar>y\<bar> then (if 0 < x then PInf else NInf) else Fin y)"

text \<open>Inside a computation a value can be NaN: \<open>None\<close>.\<close>

definition fneg :: "real64 \<Rightarrow> real64" where
  "fneg x = (case x of Fin a \<Rightarrow> Fin (- a) | PInf \<Rightarrow> NInf | NInf \<Rightarrow> PInf)"

definition fadd :: "real64 option \<Rightarrow> real64 option \<Rightarrow> real64 option" where
  "fadd x y =
     (case x of
        None \<Rightarrow> None
      | Some a \<Rightarrow>
          (case y of
             None \<Rightarrow> None
           | Some b \<Rightarrow>
               (case a of
                  Fin p \<Rightarrow> (case b of Fin q \<Rightarrow> Some (rnd64 (p + q)) | _ \<Rightarrow> Some b)
                | _ \<Rightarrow> (case b of Fin q \<Rightarrow> Some a
                         | _ \<Rightarrow> if a = b then Some a else None))))"

definition fsub :: "real64 option \<Rightarrow> real64 option \<Rightarrow> real64 option" where
  "fsub x y = fadd x (map_option fneg y)"

definition sign64 :: "real64 \<Rightarrow> int" where
  "sign64 x = (case x of Fin a \<Rightarrow> (if a < 0 then - 1 else if a = 0 then 0 else 1)
               | PInf \<Rightarrow> 1 | NInf \<Rightarrow> - 1)"

definition fmul :: "real64 \<Rightarrow> real64 \<Rightarrow> real64 option" where
  "fmul a b =
     (case (a, b) of
        (Fin p, Fin q) \<Rightarrow> Some (rnd64 (p * q))
      | _ \<Rightarrow> if sign64 a * sign64 b = 0 then None
             else if 0 < sign64 a * sign64 b then Some PInf else Some NInf)"

text \<open>\<open>fabs(s) > fabs(r)\<close>, false when either is NaN.\<close>

definition fabs_gt :: "real64 option \<Rightarrow> real64 option \<Rightarrow> bool" where
  "fabs_gt s r =
     (case s of
        None \<Rightarrow> False
      | Some a \<Rightarrow>
          (case r of
             None \<Rightarrow> False
           | Some b \<Rightarrow>
               (case b of
                  Fin q \<Rightarrow> (case a of Fin p \<Rightarrow> \<bar>q\<bar> < \<bar>p\<bar> | _ \<Rightarrow> True)
                | _ \<Rightarrow> False)))"

text \<open>
  The sum of SQLite's \<open>SUM\<close> and \<open>AVG\<close> on floating-point values (Kahan-Babuska-Neumaier):
  a running sum and a running error, added at the end unless the error is infinite or
  NaN.
\<close>

definition kbn_step ::
  "real64 option \<times> real64 option \<Rightarrow> real64 option \<Rightarrow> real64 option \<times> real64 option" where
  "kbn_step acc r =
     (let s = fst acc;
          t = fadd s r;
          e = (if fabs_gt s r then fadd (fsub s t) r else fadd (fsub r t) s)
      in (t, fadd (snd acc) e))"

definition kbn_sum :: "real64 list \<Rightarrow> real64 option" where
  "kbn_sum vals =
     (let acc = foldl kbn_step (Some (Fin 0), Some (Fin 0)) (map Some vals)
      in case snd acc of
           Some (Fin e) \<Rightarrow> fadd (fst acc) (snd acc)
         | _ \<Rightarrow> fst acc)"

text \<open>An integer of 64 bits as a binary64 number.\<close>

definition real_of_int64 :: "int \<Rightarrow> real64" where
  "real_of_int64 i = rnd64 (of_int i)"

text \<open>\<open>AVG(price)\<close>: the sum divided by the number of rows.\<close>

definition sql_avg :: "real64 list \<Rightarrow> real64 option" where
  "sql_avg prices =
     (case kbn_sum prices of
        None \<Rightarrow> None
      | Some (Fin s) \<Rightarrow>
          (case real_of_int64 (int (length prices)) of
             Fin c \<Rightarrow> Some (rnd64 (s / c))
           | _ \<Rightarrow> Some (Fin 0))
      | Some i \<Rightarrow> Some i)"

text \<open>
  \<open>ROUND(x, 2)\<close>: \<open>x\<close> itself beyond \<open>2 ^ 52\<close>, else the binary64 number nearest to the
  decimal with two places that is nearest to \<open>x\<close>, a half rounded away from zero.
\<close>

definition sql_round2 :: "real64 \<Rightarrow> real64" where
  "sql_round2 x =
     (case x of
        Fin a \<Rightarrow>
          if 2 ^ 52 < \<bar>a\<bar> then Fin a
          else rnd64 ((if a < 0 then - 1 else 1) * of_int \<lfloor>\<bar>a\<bar> * 100 + 1 / 2\<rfloor> / 100)
      | _ \<Rightarrow> x)"

text \<open>Python's \<open>round(x, 2)\<close>: the same with a half rounded to the even digit.\<close>

definition python_round2 :: "real64 \<Rightarrow> real64" where
  "python_round2 x =
     (case x of Fin a \<Rightarrow> rnd64 (of_int (round_half_even (a * 100)) / 100) | _ \<Rightarrow> x)"

text \<open>
  \<open>SUM(price * stock)\<close>: each product in binary64, a product that is NaN being \<open>NULL\<close> and
  left out; \<open>NULL\<close> when nothing is left.
\<close>

definition sql_sum_value :: "(real64 \<times> int) list \<Rightarrow> real64 option" where
  "sql_sum_value rows =
     (let terms = List.map_filter (\<lambda>r. fmul (fst r) (real_of_int64 (snd r))) rows
      in if terms = [] then None else kbn_sum terms)"

text \<open>
  The engine of the examples: at most 32766 variables, rows with equal names in the
  order of their rowids, aggregates in the order of the rowids, and the arithmetic above.
\<close>

definition sqlite_engine :: "real64 engine" where
  "sqlite_engine =
     \<lparr>max_variables = 32766,
      listing_order = (\<lambda>sel. sort_key name),
      scan_order = (\<lambda>sel rows. rows),
      round_avg = (\<lambda>prices. map_option sql_round2 (sql_avg prices)),
      sum_value = sql_sum_value,
      py_round2 = python_round2,
      zero_real = Fin 0\<rparr>"

subsection \<open>Example stores\<close>

text \<open>The data file before \<open>init_db\<close> has run, and after.\<close>

definition fresh_file :: "real64 world" where
  "fresh_file = \<lparr>disk = None, open_conns = 0\<rparr>"

definition empty_db :: "real64 database" where
  "empty_db = \<lparr>Categories = [], Products = [], sqlite_sequence = []\<rparr>"

definition empty_shop :: "real64 world" where
  "empty_shop = \<lparr>disk = Some empty_db, open_conns = 0\<rparr>"

text \<open>Three categories, one of them without products, and three products.\<close>

definition shop_db :: "real64 database" where
  "shop_db =
     \<lparr>Categories = [(1, ''Tools''), (2, ''Garden''), (3, ''Paint'')],
      Products =
        [\<lparr>product_id = 1, name = ''Hammer'', price = Fin 10, stock = 2, category_id = 1\<rparr>,
         \<lparr>product_id = 2, name = ''Anvil'', price = Fin 20, stock = 3, category_id = 1\<rparr>,
         \<lparr>product_id = 3, name = ''Rake'', price = Fin 15, stock = 4, category_id = 2\<rparr>],
      sqlite_sequence = [(''Categories'', 3), (''Products'', 3)]\<rparr>"

definition shop :: "real64 world" where
  "shop = \<lparr>disk = Some shop_db, open_conns = 0\<rparr>"

text \<open>One category left, with the counter at 3, and no product.\<close>

definition last_category_db :: "real64 database" where
  "last_category_db =
     \<lparr>Categories = [(3, ''Tools'')], Products = [], sqlite_sequence = [(''Categories'', 3)]\<rparr>"

definition last_category_shop :: "real64 world" where
  "last_category_shop = \<lparr>disk = Some last_category_db, open_conns = 0\<rparr>"

text \<open>One product left, with the counter at 5.\<close>

definition last_product_db :: "real64 database" where
  "last_product_db =
     \<lparr>Categories = [(1, ''Tools'')],
      Products =
        [\<lparr>product_id = 5, name = ''Hammer'', price = Fin 10, stock = 2, category_id = 1\<rparr>],
      sqlite_sequence = [(''Categories'', 1), (''Products'', 5)]\<rparr>"

definition last_product_shop :: "real64 world" where
  "last_product_shop = \<lparr>disk = Some last_product_db, open_conns = 0\<rparr>"

text \<open>A product whose category does not exist.\<close>

definition orphan_db :: "real64 database" where
  "orphan_db =
     \<lparr>Categories = [],
      Products =
        [\<lparr>product_id = 1, name = ''Widget'', price = Fin 10, stock = 5, category_id = 99\<rparr>],
      sqlite_sequence = [(''Products'', 1)]\<rparr>"

definition orphan_shop :: "real64 world" where
  "orphan_shop = \<lparr>disk = Some orphan_db, open_conns = 0\<rparr>"

text \<open>
  The Python floats \<open>1.0\<close>, \<open>1.01\<close>, \<open>0.1\<close> and \<open>0.2\<close>: the binary64 numbers nearest to the
  decimals.
\<close>

definition f_1_01 :: rat where
  "f_1_01 = 4548635623644201 / 4503599627370496"

definition f_0_1 :: rat where
  "f_0_1 = 3602879701896397 / 36028797018963968"

definition f_0_2 :: rat where
  "f_0_2 = 3602879701896397 / 18014398509481984"

text \<open>
  Two products at \<open>1.0\<close> and \<open>1.01\<close> in one category, two at \<open>0.1\<close> and \<open>0.2\<close> with three
  pieces each in another.
\<close>

definition prices_db :: "real64 database" where
  "prices_db =
     \<lparr>Categories = [(1, ''Nails''), (2, ''Screws'')],
      Products =
        [\<lparr>product_id = 1, name = ''Brad'', price = Fin 1, stock = 1, category_id = 1\<rparr>,
         \<lparr>product_id = 2, name = ''Tack'', price = Fin f_1_01, stock = 1, category_id = 1\<rparr>,
         \<lparr>product_id = 3, name = ''Bolt'', price = Fin f_0_1, stock = 3, category_id = 2\<rparr>,
         \<lparr>product_id = 4, name = ''Stud'', price = Fin f_0_2, stock = 3, category_id = 2\<rparr>],
      sqlite_sequence = [(''Categories'', 2), (''Products'', 4)]\<rparr>"

definition prices_shop :: "real64 world" where
  "prices_shop = \<lparr>disk = Some prices_db, open_conns = 0\<rparr>"

text \<open>Two products whose stocks add up to \<open>2 ^ 63\<close>.\<close>

definition bulk_db :: "real64 database" where
  "bulk_db =
     \<lparr>Categories = [(1, ''Sand'')],
      Products =
        [\<lparr>product_id = 1, name = ''Grain'', price = Fin 1, stock = 2 ^ 63 - 1,
          category_id = 1\<rparr>,
         \<lparr>product_id = 2, name = ''Pebble'', price = Fin 1, stock = 1, category_id = 1\<rparr>],
      sqlite_sequence = [(''Categories'', 1), (''Products'', 2)]\<rparr>"

definition bulk_shop :: "real64 world" where
  "bulk_shop = \<lparr>disk = Some bulk_db, open_conns = 0\<rparr>"

section \<open>What each function does\<close>

lemmas conn_defs = get_connection_def begin_transaction_def commit_def rollback_def
  close_def rollback_close_def execute_def and_then_def

lemma world_same [simp]: "w\<lparr>disk := disk w\<rparr> = w" "disk w = Some d \<Longrightarrow> w\<lparr>disk := Some d\<rparr> = w"
  by simp_all

lemma int64_0 [simp]: "int64 0"
  by (simp add: int64_def)

lemma filter_absent: "x \<notin> set (map f xs) \<Longrightarrow> filter (\<lambda>r. f r \<noteq> x) xs = xs"
  by (induction xs) auto

lemma map_absent: "x \<notin> set (map f xs) \<Longrightarrow> map (\<lambda>r. if f r = x then g r else r) xs = xs"
  by (induction xs) auto

lemma init_db_fresh:
  "disk w = None \<Longrightarrow>
   init_db w = w\<lparr>disk := Some \<lparr>Categories = [], Products = [], sqlite_sequence = []\<rparr>\<rparr>"
  by (simp add: init_db_def conn_defs create_schema_def)

lemma init_db_again: "disk w = Some d \<Longrightarrow> init_db w = w"
  by (simp add: init_db_def conn_defs create_schema_def)

lemma add_category_dup:
  "disk w = Some d \<Longrightarrow> nm \<in> set (map snd (Categories d)) \<Longrightarrow> add_category nm w = (Inr False, w)"
  by (simp add: add_category_def conn_defs insert_category_def)

lemma add_category_new:
  "disk w = Some d \<Longrightarrow> nm \<notin> set (map snd (Categories d)) \<Longrightarrow>
   add_category nm w = (Inr True, w\<lparr>disk := Some (d\<lparr>Categories := Categories d @
       [(next_rowid ''Categories'' (map fst (Categories d)) (sqlite_sequence d), nm)],
     sqlite_sequence := seq_write ''Categories''
       (next_rowid ''Categories'' (map fst (Categories d)) (sqlite_sequence d)) (sqlite_sequence d)\<rparr>)\<rparr>)"
  by (simp add: add_category_def conn_defs insert_category_def Let_def)

lemma add_category_missing_schema:
  "disk w = None \<Longrightarrow> add_category nm w = (Inl OperationalError, w\<lparr>open_conns := open_conns w + 1\<rparr>)"
  by (simp add: add_category_def conn_defs)

text \<open>
  The guarded functions return \<open>False\<close> and leave everything as it was when a parameter
  cannot be bound.
\<close>

lemma delete_category_unbound:
  "\<not> int64 cid \<Longrightarrow> delete_category cid w = (False, w)"
  by (cases "disk w") (simp_all add: delete_category_def conn_defs)

lemma delete_category_refused:
  assumes "disk w = Some d" and "cid \<in> set (map category_id (Products d))"
  shows "delete_category cid w = (False, w)"
proof (cases "int64 cid")
  case True
  have "filter (\<lambda>p. category_id p = cid) (Products d) \<noteq> []"
    using assms(2) by (auto simp: filter_empty_conv)
  then show ?thesis
    using assms(1) True by (simp add: delete_category_def conn_defs count_products_of_def)
next
  case False
  then show ?thesis by (rule delete_category_unbound)
qed

lemma delete_category_free:
  "disk w = Some d \<Longrightarrow> int64 cid \<Longrightarrow> cid \<notin> set (map category_id (Products d)) \<Longrightarrow>
   delete_category cid w = (True, w\<lparr>disk := Some (d\<lparr>
     Categories := filter (\<lambda>c. fst c \<noteq> cid) (Categories d),
     sqlite_sequence := (if filter (\<lambda>c. fst c \<noteq> cid) (Categories d) = []
        then reset_seq ''Categories'' (sqlite_sequence d) else sqlite_sequence d)\<rparr>)\<rparr>)"
proof -
  assume a: "disk w = Some d" "int64 cid" "cid \<notin> set (map category_id (Products d))"
  then have "filter (\<lambda>p. category_id p = cid) (Products d) = []"
    by (auto simp: filter_empty_conv)
  with a(1,2) show ?thesis
    by (simp add: delete_category_def conn_defs count_products_of_def delete_from_categories_def
        count_categories_def delete_from_sequence_def insert_into_sequence_def reset_seq_def)
qed

lemma delete_category_missing_schema: "disk w = None \<Longrightarrow> delete_category cid w = (False, w)"
  by (simp add: delete_category_def conn_defs)

lemma add_product_stored:
  "disk w = Some d \<Longrightarrow> int64 st \<Longrightarrow> int64 cid \<Longrightarrow>
   add_product nm (Float pr) st cid w = (True, w\<lparr>disk := Some (d\<lparr>Products := Products d @
       [\<lparr>product_id = next_rowid ''Products'' (map product_id (Products d)) (sqlite_sequence d),
         name = nm, price = pr, stock = st, category_id = cid\<rparr>],
     sqlite_sequence := seq_write ''Products''
       (next_rowid ''Products'' (map product_id (Products d)) (sqlite_sequence d)) (sqlite_sequence d)\<rparr>)\<rparr>)"
  by (simp add: add_product_def conn_defs insert_product_def bind_float_def Let_def)

lemma add_product_refused:
  "\<not> int64 st \<or> \<not> int64 cid \<or> pf = NaN \<Longrightarrow> add_product nm pf st cid w = (False, w)"
  by (cases "disk w")
    (auto simp: add_product_def conn_defs insert_product_def bind_float_def)

lemma add_product_missing_schema: "disk w = None \<Longrightarrow> add_product nm pf st cid w = (False, w)"
  by (simp add: add_product_def conn_defs)

text \<open>
  \<open>add_product\<close> returns \<open>True\<close> exactly when the schema exists, the integers can be bound
  and the price is not NaN.
\<close>

lemma add_product_succeeds_iff:
  "fst (add_product nm pf st cid w) = True \<longleftrightarrow>
     disk w \<noteq> None \<and> int64 st \<and> int64 cid \<and> pf \<noteq> NaN"
proof (cases "disk w")
  case None
  then show ?thesis by (simp add: add_product_missing_schema)
next
  case (Some d)
  show ?thesis
  proof (cases "\<not> int64 st \<or> \<not> int64 cid \<or> pf = NaN")
    case True
    then show ?thesis using add_product_refused [OF True, of nm w] by auto
  next
    case False
    then obtain pr where "pf = Float pr" by (cases pf) auto
    with False Some show ?thesis by (simp add: add_product_stored)
  qed
qed

lemma update_product_stored:
  assumes "disk w = Some d" "int64 st" "int64 cid" "int64 pid"
  shows "update_product pid nm (Float pr) st cid w = (True, w\<lparr>disk := Some (d\<lparr>Products :=
      map (\<lambda>p. if product_id p = pid
                then p\<lparr>name := nm, price := pr, stock := st, category_id := cid\<rparr>
                else p) (Products d)\<rparr>)\<rparr>)"
proof (cases "pid \<in> set (map product_id (Products d))")
  case True
  with assms show ?thesis
    by (simp add: update_product_def conn_defs update_products_def bind_float_def)
next
  case False
  have "map (\<lambda>p. if product_id p = pid
                then p\<lparr>name := nm, price := pr, stock := st, category_id := cid\<rparr>
                else p) (Products d) = Products d"
    using False by (rule map_absent)
  with False assms show ?thesis
    by (simp add: update_product_def conn_defs update_products_def bind_float_def)
qed

lemma update_product_absent:
  "disk w = Some d \<Longrightarrow> int64 st \<Longrightarrow> int64 cid \<Longrightarrow> int64 pid \<Longrightarrow>
   pid \<notin> set (map product_id (Products d)) \<Longrightarrow> update_product pid nm pf st cid w = (True, w)"
  by (simp add: update_product_def conn_defs update_products_def)

lemma update_product_unbound:
  "\<not> int64 st \<or> \<not> int64 cid \<or> \<not> int64 pid \<Longrightarrow> update_product pid nm pf st cid w = (False, w)"
  by (cases "disk w") (auto simp: update_product_def conn_defs)

lemma update_product_nan:
  assumes "disk w = Some d" "pid \<in> set (map product_id (Products d))"
  shows "update_product pid nm NaN st cid w = (False, w)"
proof (cases "int64 st \<and> int64 cid \<and> int64 pid")
  case True
  with assms show ?thesis
    by (simp add: update_product_def conn_defs update_products_def bind_float_def)
next
  case False
  then show ?thesis by (intro update_product_unbound) simp
qed

lemma update_product_missing_schema: "disk w = None \<Longrightarrow> update_product pid nm pf st cid w = (False, w)"
  by (simp add: update_product_def conn_defs)

lemma update_product_cases:
  assumes "disk w = Some d"
  obtains (failed) "update_product pid nm pf st cid w = (False, w)"
  | (stored) pr where "pf = Float pr" "int64 st" "int64 cid" "int64 pid"
      "update_product pid nm pf st cid w = (True, w\<lparr>disk := Some (d\<lparr>Products :=
         map (\<lambda>p. if product_id p = pid
                   then p\<lparr>name := nm, price := pr, stock := st, category_id := cid\<rparr>
                   else p) (Products d)\<rparr>)\<rparr>)"
  | (absent) "pf = NaN" "int64 st" "int64 cid" "int64 pid"
      "pid \<notin> set (map product_id (Products d))"
      "update_product pid nm pf st cid w = (True, w)"
proof (cases "int64 st \<and> int64 cid \<and> int64 pid")
  case False
  then have "update_product pid nm pf st cid w = (False, w)"
    by (intro update_product_unbound) simp
  then show ?thesis by (rule failed)
next
  case True
  show ?thesis
  proof (cases pf)
    case (Float pr)
    with True assms show ?thesis by (intro stored [of pr]) (simp_all add: update_product_stored)
  next
    case NaN
    show ?thesis
    proof (cases "pid \<in> set (map product_id (Products d))")
      case True
      with NaN assms show ?thesis by (intro failed) (simp add: update_product_nan)
    next
      case False
      with NaN True assms show ?thesis
        by (intro absent) (simp_all add: update_product_absent)
    qed
  qed
qed

text \<open>What follows from \<open>update_product\<close> having returned \<open>True\<close>.\<close>

lemma update_product_succeeded:
  assumes "update_product pid nm pf st cid w = (True, w')"
  shows "\<exists>d. disk w = Some d \<and> int64 st \<and> int64 cid \<and> int64 pid \<and>
           (pid \<in> set (map product_id (Products d)) \<longrightarrow> (\<exists>pr. pf = Float pr))"
proof (cases "disk w")
  case None
  with assms show ?thesis by (simp add: update_product_missing_schema)
next
  case (Some d)
  have b: "int64 st \<and> int64 cid \<and> int64 pid"
    using assms update_product_unbound [of st cid pid nm pf w] by auto
  have "\<exists>pr. pf = Float pr" if "pid \<in> set (map product_id (Products d))"
  proof (cases pf)
    case (Float pr)
    then show ?thesis by simp
  next
    case NaN
    with assms update_product_nan [OF Some that, of nm st cid] show ?thesis by simp
  qed
  with Some b show ?thesis by simp
qed

lemma delete_product_done:
  "disk w = Some d \<Longrightarrow> int64 pid \<Longrightarrow>
   delete_product pid w = (True, w\<lparr>disk := Some (d\<lparr>
     Products := filter (\<lambda>p. product_id p \<noteq> pid) (Products d),
     sqlite_sequence := (if filter (\<lambda>p. product_id p \<noteq> pid) (Products d) = []
        then reset_seq ''Products'' (sqlite_sequence d) else sqlite_sequence d)\<rparr>)\<rparr>)"
  by (simp add: delete_product_def conn_defs delete_from_products_def
        count_products_def delete_from_sequence_def insert_into_sequence_def reset_seq_def)

lemma delete_product_unbound: "\<not> int64 pid \<Longrightarrow> delete_product pid w = (False, w)"
  by (cases "disk w") (simp_all add: delete_product_def conn_defs)

lemma delete_product_missing_schema: "disk w = None \<Longrightarrow> delete_product pid w = (False, w)"
  by (simp add: delete_product_def conn_defs)

text \<open>The functions that read: what they return, and when they raise.\<close>

lemma get_all_categories_ok:
  "disk w = Some d \<Longrightarrow> get_all_categories w = (Inr (sort_key fst (Categories d)), w)"
  by (simp add: get_all_categories_def conn_defs select_categories_def)

lemma get_all_products_ok:
  "disk w = Some d \<Longrightarrow> get_all_products eng w =
     (Inr (listing_order eng All_products (join_categories d (Products d))), w)"
  by (simp add: get_all_products_def conn_defs select_products_def)

lemma get_product_by_id_ok:
  "disk w = Some d \<Longrightarrow> int64 pid \<Longrightarrow> get_product_by_id pid w =
     (Inr (fetchone (join_categories d (filter (\<lambda>p. product_id p = pid) (Products d)))), w)"
  by (simp add: get_product_by_id_def conn_defs select_product_by_id_def)

lemma get_product_by_id_unbound:
  "disk w = Some d \<Longrightarrow> \<not> int64 pid \<Longrightarrow>
   get_product_by_id pid w = (Inl OverflowError, w\<lparr>open_conns := open_conns w + 1\<rparr>)"
  by (simp add: get_product_by_id_def conn_defs)

lemma get_products_by_category_ok:
  "disk w = Some d \<Longrightarrow> bindable eng (selection_of c ids) \<Longrightarrow>
   get_products_by_category eng c ids w =
     (Inr (listing_order eng (selection_of c ids)
            (join_categories d (filter (selects (selection_of c ids)) (Products d)))), w)"
proof -
  assume a: "disk w = Some d" "bindable eng (selection_of c ids)"
  show ?thesis
  proof (cases ids)
    case None
    with a show ?thesis
      by (cases c)
        (simp_all add: get_products_by_category_def conn_defs select_products_def
          selection_of_def split: if_splits)
  next
    case (Some xs)
    with a show ?thesis
      by (cases xs; cases c)
        (simp_all add: get_products_by_category_def conn_defs select_products_def
          selection_of_def split: if_splits)
  qed
qed

lemma get_products_by_category_unbound:
  "disk w = Some d \<Longrightarrow> \<not> bindable eng (selection_of c ids) \<Longrightarrow>
   get_products_by_category eng c ids w =
     (Inl (case selection_of c ids of
             In_categories xs \<Rightarrow>
               if max_variables eng < length xs then OperationalError else OverflowError
           | _ \<Rightarrow> OverflowError),
      w\<lparr>open_conns := open_conns w + 1\<rparr>)"
proof -
  assume a: "disk w = Some d" "\<not> bindable eng (selection_of c ids)"
  show ?thesis
  proof (cases ids)
    case None
    with a show ?thesis
      by (cases c)
        (simp_all add: get_products_by_category_def conn_defs selection_of_def
          split: if_splits)
  next
    case (Some xs)
    with a show ?thesis
      by (cases xs; cases c)
        (auto simp: get_products_by_category_def conn_defs selection_of_def split: if_splits)
  qed
qed

lemma select_report_keeps: "select_report eng sel d = Inr (r, d') \<Longrightarrow> d' = d"
  by (auto simp: select_report_def Let_def split: if_splits option.splits)

lemma get_category_report_ok:
  "disk w = Some d \<Longrightarrow> bindable eng (selection_of c ids) \<Longrightarrow>
   get_category_report eng c ids w =
     (case select_report eng (selection_of c ids) d of
        Inl e \<Rightarrow> (Inl e, w\<lparr>open_conns := open_conns w + 1\<rparr>)
      | Inr r \<Rightarrow> (Inr (report_dict eng (fst r)), w))"
proof -
  assume a: "disk w = Some d" "bindable eng (selection_of c ids)"
  have k: "(case select_report eng sel d of
              Inl e \<Rightarrow> (Inl e, w')
            | Inr (r, d') \<Rightarrow> (Inr r, w'\<lparr>disk := Some d'\<rparr>)) =
           (case select_report eng sel d of
              Inl e \<Rightarrow> (Inl e, w')
            | Inr r \<Rightarrow> (Inr (fst r), w'\<lparr>disk := Some d\<rparr>))" for sel and w' :: "'a world"
    using select_report_keeps [of eng sel d] by (auto split: sum.split)
  show ?thesis
  proof (cases ids)
    case None
    with a show ?thesis
      by (cases c)
        (auto simp: get_category_report_def conn_defs selection_of_def k
          split: sum.split if_splits)
  next
    case (Some xs)
    with a show ?thesis
      by (cases xs; cases c)
        (auto simp: get_category_report_def conn_defs selection_of_def k
          split: sum.split if_splits)
  qed
qed

lemma get_category_report_unbound:
  "disk w = Some d \<Longrightarrow> \<not> bindable eng (selection_of c ids) \<Longrightarrow>
   get_category_report eng c ids w =
     (Inl (case selection_of c ids of
             In_categories xs \<Rightarrow>
               if max_variables eng < length xs then OperationalError else OverflowError
           | _ \<Rightarrow> OverflowError),
      w\<lparr>open_conns := open_conns w + 1\<rparr>)"
proof -
  assume a: "disk w = Some d" "\<not> bindable eng (selection_of c ids)"
  show ?thesis
  proof (cases ids)
    case None
    with a show ?thesis
      by (cases c)
        (simp_all add: get_category_report_def conn_defs selection_of_def split: if_splits)
  next
    case (Some xs)
    with a show ?thesis
      by (cases xs; cases c)
        (auto simp: get_category_report_def conn_defs selection_of_def split: if_splits)
  qed
qed

text \<open>A function that reads leaves the content of the file as it was.\<close>

lemma reads_keep_disk:
  "disk (snd (get_all_categories w)) = disk w"
  "disk (snd (get_all_products eng w)) = disk w"
  "disk (snd (get_products_by_category eng c ids w)) = disk w"
  "disk (snd (get_product_by_id pid w)) = disk w"
  "disk (snd (get_category_report eng c ids w)) = disk w"
proof -
  show "disk (snd (get_all_categories w)) = disk w"
    by (cases "disk w") (simp_all add: get_all_categories_def conn_defs select_categories_def)
  show "disk (snd (get_all_products eng w)) = disk w"
    by (cases "disk w") (simp_all add: get_all_products_def conn_defs select_products_def)
  show "disk (snd (get_product_by_id pid w)) = disk w"
    by (cases "disk w") (simp_all add: get_product_by_id_def conn_defs select_product_by_id_def)
  show "disk (snd (get_products_by_category eng c ids w)) = disk w"
  proof (cases "disk w")
    case None
    then show ?thesis
      by (simp add: get_products_by_category_def conn_defs split: option.split list.split)
  next
    case (Some d)
    then show ?thesis
      by (cases "bindable eng (selection_of c ids)")
        (simp_all add: get_products_by_category_ok get_products_by_category_unbound)
  qed
  show "disk (snd (get_category_report eng c ids w)) = disk w"
  proof (cases "disk w")
    case None
    then show ?thesis
      by (simp add: get_category_report_def conn_defs split: option.split list.split)
  next
    case (Some d)
    then show ?thesis
      by (cases "bindable eng (selection_of c ids)")
        (simp_all add: get_category_report_ok get_category_report_unbound split: sum.split)
  qed
qed

section \<open>Counters and the invariant\<close>

text \<open>
  What \<open>sqlite_sequence\<close> holds after a write, and the rowid that an insert chooses.
\<close>

lemma seq_of_seq_write [simp]: "seq_of tbl (seq_write tbl v seqs) = v"
  by (induction seqs) (auto simp: seq_of_def)

lemma seq_of_seq_write_other [simp]: "tbl' \<noteq> tbl \<Longrightarrow> seq_of tbl' (seq_write tbl v seqs) = seq_of tbl' seqs"
  by (induction seqs) (auto simp: seq_of_def)

lemma map_of_filter_other: "tbl' \<noteq> tbl \<Longrightarrow> map_of (filter (\<lambda>r. fst r \<noteq> tbl) seqs) tbl' = map_of seqs tbl'"
  by (induction seqs) auto

lemma map_of_filter_same: "map_of (filter (\<lambda>r. fst r \<noteq> tbl) seqs) tbl = None"
  by (induction seqs) auto

lemma seq_of_reset_seq [simp]: "seq_of tbl (reset_seq tbl seqs) = 0"
  by (simp add: seq_of_def reset_seq_def map_add_def map_of_filter_same)

lemma seq_of_reset_seq_other [simp]: "tbl' \<noteq> tbl \<Longrightarrow> seq_of tbl' (reset_seq tbl seqs) = seq_of tbl' seqs"
  by (simp add: seq_of_def reset_seq_def map_add_def map_of_filter_other split: option.split)

lemma max_rowid_Max: "max_rowid ids = Max (set (0 # ids))"
  by (simp only: max_rowid_def Max.set_eq_fold)

lemma max_rowid_nonneg: "0 \<le> max_rowid ids"
  by (simp add: max_rowid_Max)

lemma max_rowid_ge: "i \<in> set ids \<Longrightarrow> i \<le> max_rowid ids"
  by (simp add: max_rowid_Max)

lemma max_rowid_Nil [simp]: "max_rowid [] = 0"
  by (simp add: max_rowid_def)

lemma next_rowid_gt_seq: "seq_of tbl seqs < next_rowid tbl ids seqs"
  by (simp add: next_rowid_def)

lemma next_rowid_gt_ids: "i \<in> set ids \<Longrightarrow> i < next_rowid tbl ids seqs"
  using max_rowid_ge [of i ids] by (simp add: next_rowid_def)

lemma next_rowid_pos: "0 < next_rowid tbl ids seqs"
  using max_rowid_nonneg [of ids] by (simp add: next_rowid_def)

lemma wf_table_max: "wf_table tbl ids seqs \<Longrightarrow> max_rowid ids \<le> seq_of tbl seqs"
proof (cases ids)
  case Nil
  assume "wf_table tbl ids seqs"
  with Nil show ?thesis by (simp add: wf_table_def)
next
  case (Cons i rest)
  assume a: "wf_table tbl ids seqs"
  then have "\<forall>j \<in> set ids. j \<le> seq_of tbl seqs" by (simp add: wf_table_def)
  moreover from a Cons have "0 \<le> seq_of tbl seqs" by (auto simp: wf_table_def)
  ultimately show ?thesis by (simp add: max_rowid_Max)
qed

lemma next_rowid_wf: "wf_table tbl ids seqs \<Longrightarrow> next_rowid tbl ids seqs = seq_of tbl seqs + 1"
  using wf_table_max [of tbl ids seqs] by (simp add: next_rowid_def)

lemma next_rowid_reset [simp]: "next_rowid tbl [] (reset_seq tbl seqs) = 1"
  by (simp add: next_rowid_def)

lemma wf_table_insert:
  assumes "wf_table tbl ids seqs"
  shows "wf_table tbl (ids @ [next_rowid tbl ids seqs]) (seq_write tbl (next_rowid tbl ids seqs) seqs)"
proof -
  have "\<forall>i \<in> set ids. i < next_rowid tbl ids seqs"
    by (simp add: next_rowid_gt_ids)
  moreover have "\<forall>i \<in> set ids. 1 \<le> i \<and> i \<le> next_rowid tbl ids seqs"
    using assms next_rowid_gt_ids [of _ ids tbl seqs] by (fastforce simp: wf_table_def)
  moreover have "1 \<le> next_rowid tbl ids seqs"
    using next_rowid_pos [of tbl ids seqs] by simp
  ultimately show ?thesis
    using assms by (simp add: wf_table_def sorted_wrt_append)
qed

lemma wf_table_seq_write_other:
  "tbl' \<noteq> tbl \<Longrightarrow> wf_table tbl' ids (seq_write tbl v seqs) = wf_table tbl' ids seqs"
  by (simp add: wf_table_def)

lemma wf_table_reset_other:
  "tbl' \<noteq> tbl \<Longrightarrow> wf_table tbl' ids (reset_seq tbl seqs) = wf_table tbl' ids seqs"
  by (simp add: wf_table_def)

lemma wf_table_filter:
  assumes "wf_table tbl (map f rows) seqs"
  shows "wf_table tbl (map f (filter P rows))
           (if filter P rows = [] then reset_seq tbl seqs else seqs)"
proof -
  have "sorted_wrt (<) (map f (filter P rows))"
    using assms by (simp add: wf_table_def sorted_wrt_map sorted_wrt_filter)
  then show ?thesis using assms by (auto simp: wf_table_def filter_empty_conv)
qed

lemma next_rowid_remaining:
  assumes "wf_table tbl (map f rows) seqs" "filter P rows \<noteq> []"
  shows "next_rowid tbl (map f (filter P rows)) seqs = seq_of tbl seqs + 1"
    and "\<forall>j \<in> set (map f rows). j < seq_of tbl seqs + 1"
    and "1 < seq_of tbl seqs + 1"
proof -
  have "wf_table tbl (map f (filter P rows)) seqs"
    using wf_table_filter [OF assms(1), of P] assms(2) by simp
  then show "next_rowid tbl (map f (filter P rows)) seqs = seq_of tbl seqs + 1"
    by (rule next_rowid_wf)
  show "\<forall>j \<in> set (map f rows). j < seq_of tbl seqs + 1"
    using assms(1) by (fastforce simp: wf_table_def)
  from assms(2) obtain r where "r \<in> set rows" by (auto simp: filter_empty_conv)
  with assms(1) have "1 \<le> f r" "f r \<le> seq_of tbl seqs" by (auto simp: wf_table_def)
  then show "1 < seq_of tbl seqs + 1" by simp
qed

text \<open>
  The store that \<open>init_db\<close> creates is well formed, and every function that writes
  keeps it so: each store the functions can reach is well formed.
\<close>

lemma wf_db_init: "wf_db \<lparr>Categories = [], Products = [], sqlite_sequence = []\<rparr>"
  by (simp add: wf_db_def wf_table_def seq_of_def)

lemma wf_db_add_category:
  assumes "disk w = Some d" "wf_db d" "disk (snd (add_category nm w)) = Some d'"
  shows "wf_db d'"
proof (cases "nm \<in> set (map snd (Categories d))")
  case True
  then show ?thesis using assms by (simp add: add_category_dup)
next
  case False
  then show ?thesis using assms
    by (auto simp: add_category_new wf_db_def wf_table_insert wf_table_seq_write_other)
qed


lemma wf_db_delete_category:
  assumes "disk w = Some d" "wf_db d" "disk (snd (delete_category cid w)) = Some d'"
  shows "wf_db d'"
proof (cases "int64 cid \<and> cid \<notin> set (map category_id (Products d))")
  case False
  then have "delete_category cid w = (False, w)"
    using assms(1) delete_category_refused [of w d cid] delete_category_unbound [of cid w]
    by blast
  then show ?thesis using assms by simp
next
  case True
  have "d' = d\<lparr>Categories := filter (\<lambda>c. fst c \<noteq> cid) (Categories d),
     sqlite_sequence := (if filter (\<lambda>c. fst c \<noteq> cid) (Categories d) = []
        then reset_seq ''Categories'' (sqlite_sequence d) else sqlite_sequence d)\<rparr>"
    using True assms by (simp add: delete_category_free)
  moreover have "wf_table ''Categories'' (map fst (filter (\<lambda>c. fst c \<noteq> cid) (Categories d)))
     (if filter (\<lambda>c. fst c \<noteq> cid) (Categories d) = []
        then reset_seq ''Categories'' (sqlite_sequence d) else sqlite_sequence d)"
    using assms(2) by (intro wf_table_filter) (simp add: wf_db_def)
  ultimately show ?thesis using assms(2)
    by (auto simp: wf_db_def wf_table_reset_other distinct_map_filter)
qed

lemma wf_db_add_product:
  assumes "disk w = Some d" "wf_db d" "disk (snd (add_product nm pf st c w)) = Some d'"
  shows "wf_db d'"
proof (cases "\<not> int64 st \<or> \<not> int64 c \<or> pf = NaN")
  case True
  then show ?thesis using assms by (simp add: add_product_refused)
next
  case False
  then obtain pr where "pf = Float pr" by (cases pf) auto
  with False assms show ?thesis
    by (auto simp: add_product_stored wf_db_def wf_table_insert wf_table_seq_write_other)
qed

lemma update_keeps_ids:
  "map product_id (map (\<lambda>p. if product_id p = pid
                then p\<lparr>name := nm, price := pr, stock := st, category_id := c\<rparr>
                else p) ps) = map product_id ps"
  by (simp add: comp_def if_distrib [of product_id] cong: if_cong)

lemma wf_db_update_product:
  assumes "disk w = Some d" "wf_db d" "disk (snd (update_product pid nm pf st c w)) = Some d'"
  shows "wf_db d'"
  using assms(1)
proof (cases rule: update_product_cases [where pid = pid and nm = nm and pf = pf and st = st
      and cid = c])
  case failed
  with assms show ?thesis by simp
next
  case (stored pr)
  then show ?thesis using assms
    by (auto simp: wf_db_def update_keeps_ids simp del: map_map)
next
  case absent
  with assms show ?thesis by simp
qed

lemma wf_db_delete_product:
  assumes "disk w = Some d" "wf_db d" "disk (snd (delete_product pid w)) = Some d'"
  shows "wf_db d'"
proof (cases "int64 pid")
  case False
  then show ?thesis using assms by (simp add: delete_product_unbound)
next
  case True
  have "d' = d\<lparr>Products := filter (\<lambda>p. product_id p \<noteq> pid) (Products d),
     sqlite_sequence := (if filter (\<lambda>p. product_id p \<noteq> pid) (Products d) = []
        then reset_seq ''Products'' (sqlite_sequence d) else sqlite_sequence d)\<rparr>"
    using assms True by (simp add: delete_product_done)
  moreover have "wf_table ''Products'' (map product_id (filter (\<lambda>p. product_id p \<noteq> pid) (Products d)))
     (if filter (\<lambda>p. product_id p \<noteq> pid) (Products d) = []
        then reset_seq ''Products'' (sqlite_sequence d) else sqlite_sequence d)"
    using assms(2) by (intro wf_table_filter) (simp add: wf_db_def)
  ultimately show ?thesis using assms(2)
    by (auto simp: wf_db_def wf_table_reset_other)
qed

lemma wf_db_distinct_ids: "wf_db d \<Longrightarrow> distinct (map fst (Categories d))"
  by (simp add: wf_db_def wf_table_def strict_sorted_iff)

lemma wf_empty_db: "wf_db empty_db"
  by (simp add: wf_db_def wf_table_def empty_db_def seq_of_def)

lemma wf_shop_db: "wf_db shop_db"
  by (simp add: wf_db_def wf_table_def shop_db_def seq_of_def)

text \<open>The functions that write keep the schema.\<close>

lemma writes_keep_schema:
  assumes "disk w = Some d"
  shows "\<exists>d'. disk (snd (add_category nm w)) = Some d'"
    and "\<exists>d'. disk (snd (delete_category cid w)) = Some d'"
    and "\<exists>d'. disk (snd (add_product nm pf st c w)) = Some d'"
    and "\<exists>d'. disk (snd (update_product pid nm pf st c w)) = Some d'"
    and "\<exists>d'. disk (snd (delete_product pid w)) = Some d'"
proof -
  show "\<exists>d'. disk (snd (add_category nm w)) = Some d'"
    using assms
    by (cases "nm \<in> set (map snd (Categories d))") (simp_all add: add_category_dup add_category_new)
  show "\<exists>d'. disk (snd (delete_category cid w)) = Some d'"
    using assms
    by (cases "int64 cid"; cases "cid \<in> set (map category_id (Products d))")
      (simp_all add: delete_category_refused delete_category_free delete_category_unbound)
  show "\<exists>d'. disk (snd (add_product nm pf st c w)) = Some d'"
  proof (cases "\<not> int64 st \<or> \<not> int64 c \<or> pf = NaN")
    case True
    then show ?thesis using assms by (simp add: add_product_refused)
  next
    case False
    then obtain pr where "pf = Float pr" by (cases pf) auto
    with False assms show ?thesis by (simp add: add_product_stored)
  qed
  show "\<exists>d'. disk (snd (update_product pid nm pf st c w)) = Some d'"
    using assms
    by (cases rule: update_product_cases [where pid = pid and nm = nm and pf = pf and st = st
          and cid = c]) (simp_all add: assms)
  show "\<exists>d'. disk (snd (delete_product pid w)) = Some d'"
    using assms
    by (cases "int64 pid") (simp_all add: delete_product_done delete_product_unbound)
qed

section \<open>Connections\<close>

text \<open>
  The guarded functions give back every connection they open, whatever happens, and so
  do the others when their statement succeeds.
\<close>

lemma guarded_functions_close:
  "open_conns (snd (delete_category cid w)) = open_conns w"
  "open_conns (snd (add_product nm pf st c w)) = open_conns w"
  "open_conns (snd (update_product pid nm pf st c w)) = open_conns w"
  "open_conns (snd (delete_product pid w)) = open_conns w"
proof -
  show "open_conns (snd (delete_category cid w)) = open_conns w"
  proof (cases "disk w")
    case None
    then show ?thesis by (simp add: delete_category_missing_schema)
  next
    case (Some d)
    then show ?thesis
      by (cases "int64 cid"; cases "cid \<in> set (map category_id (Products d))")
        (simp_all add: delete_category_refused delete_category_free delete_category_unbound)
  qed
  show "open_conns (snd (add_product nm pf st c w)) = open_conns w"
  proof (cases "disk w")
    case None
    then show ?thesis by (simp add: add_product_missing_schema)
  next
    case (Some d)
    show ?thesis
    proof (cases "\<not> int64 st \<or> \<not> int64 c \<or> pf = NaN")
      case True
      then show ?thesis by (simp add: add_product_refused)
    next
      case False
      then obtain pr where "pf = Float pr" by (cases pf) auto
      with False Some show ?thesis by (simp add: add_product_stored)
    qed
  qed
  show "open_conns (snd (update_product pid nm pf st c w)) = open_conns w"
  proof (cases "disk w")
    case None
    then show ?thesis by (simp add: update_product_missing_schema)
  next
    case (Some d)
    then show ?thesis
      by (cases rule: update_product_cases [where pid = pid and nm = nm and pf = pf and st = st
            and cid = c]) (simp_all add: Some)
  qed
  show "open_conns (snd (delete_product pid w)) = open_conns w"
  proof (cases "disk w")
    case None
    then show ?thesis by (simp add: delete_product_missing_schema)
  next
    case (Some d)
    then show ?thesis
      by (cases "int64 pid") (simp_all add: delete_product_done delete_product_unbound)
  qed
qed

lemma add_category_closes_on_schema:
  "disk w = Some d \<Longrightarrow> open_conns (snd (add_category nm w)) = open_conns w"
  by (cases "nm \<in> set (map snd (Categories d))")
    (simp_all add: add_category_dup add_category_new)

text \<open>
  On a data file without the schema, the functions that have no handler for
  \<open>OperationalError\<close> leave with their connection open.
\<close>

lemma unguarded_functions_leak:
  assumes "disk w = None"
  shows "add_category nm w = (Inl OperationalError, w\<lparr>open_conns := open_conns w + 1\<rparr>)"
    and "get_all_products eng w = (Inl OperationalError, w\<lparr>open_conns := open_conns w + 1\<rparr>)"
    and "get_products_by_category eng c ids w =
           (Inl OperationalError, w\<lparr>open_conns := open_conns w + 1\<rparr>)"
    and "get_product_by_id pid w = (Inl OperationalError, w\<lparr>open_conns := open_conns w + 1\<rparr>)"
    and "get_category_report eng c ids w =
           (Inl OperationalError, w\<lparr>open_conns := open_conns w + 1\<rparr>)"
  using assms
  by (simp_all add: add_category_def get_all_products_def get_products_by_category_def
      get_product_by_id_def get_category_report_def conn_defs split: option.split list.split)

section \<open>Reachable stores\<close>

text \<open>
  Every store that the functions can produce has its schema and is well formed: the
  hypotheses of the statements on well-formed stores hold wherever the application can
  get.
\<close>

lemma reachable_wf: "reachable w \<Longrightarrow> \<exists>d. disk w = Some d \<and> wf_db d"
proof (induction rule: reachable.induct)
  case start
  show ?case by (simp add: init_db_fresh wf_db_init)
next
  case (init_again w)
  then show ?case by (auto simp: init_db_again)
next
  case (add_category w nm)
  then obtain d where d: "disk w = Some d" "wf_db d" by blast
  then show ?case using wf_db_add_category [OF d] writes_keep_schema(1) [OF d(1), of nm] by auto
next
  case (delete_category w cid)
  then obtain d where d: "disk w = Some d" "wf_db d" by blast
  then show ?case using wf_db_delete_category [OF d] writes_keep_schema(2) [OF d(1), of cid] by auto
next
  case (add_product w nm pr st cid)
  then obtain d where d: "disk w = Some d" "wf_db d" by blast
  then show ?case
    using wf_db_add_product [OF d] writes_keep_schema(3) [OF d(1), of nm pr st cid] by auto
next
  case (update_product w pid nm pr st cid)
  then obtain d where d: "disk w = Some d" "wf_db d" by blast
  then show ?case
    using wf_db_update_product [OF d] writes_keep_schema(4) [OF d(1), of pid nm pr st cid] by auto
next
  case (delete_product w pid)
  then obtain d where d: "disk w = Some d" "wf_db d" by blast
  then show ?case using wf_db_delete_product [OF d] writes_keep_schema(5) [OF d(1), of pid] by auto
next
  case (get_all_categories w)
  then show ?case by (simp add: reads_keep_disk)
next
  case (get_all_products w eng)
  then show ?case by (simp add: reads_keep_disk)
next
  case (get_products_by_category w eng c ids)
  then show ?case by (simp add: reads_keep_disk)
next
  case (get_product_by_id w pid)
  then show ?case by (simp add: reads_keep_disk)
next
  case (get_category_report w eng c ids)
  then show ?case by (simp add: reads_keep_disk)
qed

lemma init_db_fresh_file: "init_db fresh_file = empty_shop"
  by (simp add: init_db_def conn_defs create_schema_def fresh_file_def empty_shop_def empty_db_def)

lemma add_product_widget:
  "add_product ''Widget'' (Float (Fin 10)) 5 99 empty_shop = (True, orphan_shop)"
  by (simp add: add_product_def conn_defs insert_product_def bind_float_def int64_def
      empty_shop_def empty_db_def orphan_shop_def orphan_db_def next_rowid_def seq_of_def)

lemma reachable_empty_shop: "reachable empty_shop"
  using reachable.start [where ?'p = real64] by (simp add: init_db_fresh_file [unfolded fresh_file_def])

text \<open>
  The example stores can be reached, the one with the product without category included.
\<close>

lemma reachable_orphan_shop: "reachable orphan_shop"
  using reachable.add_product [OF reachable_empty_shop, of "''Widget''" "Float (Fin 10)" 5 99]
  by (simp add: add_product_widget)

lemmas add_defs = add_category_def add_product_def conn_defs insert_category_def
  insert_product_def bind_float_def int64_def next_rowid_def seq_of_def max_rowid_def

lemma reachable_shop: "reachable shop"
proof -
  define w1 where "w1 = snd (add_category ''Tools'' empty_shop)"
  define w2 where "w2 = snd (add_category ''Garden'' w1)"
  define w3 where "w3 = snd (add_category ''Paint'' w2)"
  define w4 where "w4 = snd (add_product ''Hammer'' (Float (Fin 10)) 2 1 w3)"
  define w5 where "w5 = snd (add_product ''Anvil'' (Float (Fin 20)) 3 1 w4)"
  define w6 where "w6 = snd (add_product ''Rake'' (Float (Fin 15)) 4 2 w5)"
  have r: "reachable w6"
    unfolding w6_def w5_def w4_def w3_def w2_def w1_def
    by (intro reachable.add_product reachable.add_category reachable_empty_shop)
  have 1: "w1 = \<lparr>disk = Some \<lparr>Categories = [(1, ''Tools'')], Products = [],
      sqlite_sequence = [(''Categories'', 1)]\<rparr>, open_conns = 0\<rparr>"
    unfolding w1_def by (simp add: add_defs empty_shop_def empty_db_def)
  have 2: "w2 = \<lparr>disk = Some \<lparr>Categories = [(1, ''Tools''), (2, ''Garden'')], Products = [],
      sqlite_sequence = [(''Categories'', 2)]\<rparr>, open_conns = 0\<rparr>"
    unfolding w2_def 1 by (simp add: add_defs)
  have 3: "w3 = \<lparr>disk = Some \<lparr>Categories = [(1, ''Tools''), (2, ''Garden''), (3, ''Paint'')],
      Products = [], sqlite_sequence = [(''Categories'', 3)]\<rparr>, open_conns = 0\<rparr>"
    unfolding w3_def 2 by (simp add: add_defs)
  have 4: "w4 = \<lparr>disk = Some \<lparr>Categories = [(1, ''Tools''), (2, ''Garden''), (3, ''Paint'')],
      Products = [\<lparr>product_id = 1, name = ''Hammer'', price = Fin 10, stock = 2, category_id = 1\<rparr>],
      sqlite_sequence = [(''Categories'', 3), (''Products'', 1)]\<rparr>, open_conns = 0\<rparr>"
    unfolding w4_def 3 by (simp add: add_defs)
  have 5: "w5 = \<lparr>disk = Some \<lparr>Categories = [(1, ''Tools''), (2, ''Garden''), (3, ''Paint'')],
      Products = [\<lparr>product_id = 1, name = ''Hammer'', price = Fin 10, stock = 2, category_id = 1\<rparr>,
         \<lparr>product_id = 2, name = ''Anvil'', price = Fin 20, stock = 3, category_id = 1\<rparr>],
      sqlite_sequence = [(''Categories'', 3), (''Products'', 2)]\<rparr>, open_conns = 0\<rparr>"
    unfolding w5_def 4 by (simp add: add_defs)
  have 6: "w6 = shop"
    unfolding w6_def 5 by (simp add: add_defs shop_def shop_db_def)
  from r 6 show ?thesis by simp
qed

lemma reachable_prices_shop: "reachable prices_shop"
proof -
  define w1 where "w1 = snd (add_category ''Nails'' empty_shop)"
  define w2 where "w2 = snd (add_category ''Screws'' w1)"
  define w3 where "w3 = snd (add_product ''Brad'' (Float (Fin 1)) 1 1 w2)"
  define w4 where "w4 = snd (add_product ''Tack'' (Float (Fin f_1_01)) 1 1 w3)"
  define w5 where "w5 = snd (add_product ''Bolt'' (Float (Fin f_0_1)) 3 2 w4)"
  define w6 where "w6 = snd (add_product ''Stud'' (Float (Fin f_0_2)) 3 2 w5)"
  have r: "reachable w6"
    unfolding w6_def w5_def w4_def w3_def w2_def w1_def
    by (intro reachable.add_product reachable.add_category reachable_empty_shop)
  have 1: "w1 = \<lparr>disk = Some \<lparr>Categories = [(1, ''Nails'')], Products = [],
      sqlite_sequence = [(''Categories'', 1)]\<rparr>, open_conns = 0\<rparr>"
    unfolding w1_def by (simp add: add_defs empty_shop_def empty_db_def)
  have 2: "w2 = \<lparr>disk = Some \<lparr>Categories = [(1, ''Nails''), (2, ''Screws'')], Products = [],
      sqlite_sequence = [(''Categories'', 2)]\<rparr>, open_conns = 0\<rparr>"
    unfolding w2_def 1 by (simp add: add_defs)
  have 3: "w3 = \<lparr>disk = Some \<lparr>Categories = [(1, ''Nails''), (2, ''Screws'')],
      Products = [\<lparr>product_id = 1, name = ''Brad'', price = Fin 1, stock = 1, category_id = 1\<rparr>],
      sqlite_sequence = [(''Categories'', 2), (''Products'', 1)]\<rparr>, open_conns = 0\<rparr>"
    unfolding w3_def 2 by (simp add: add_defs)
  have 4: "w4 = \<lparr>disk = Some \<lparr>Categories = [(1, ''Nails''), (2, ''Screws'')],
      Products = [\<lparr>product_id = 1, name = ''Brad'', price = Fin 1, stock = 1, category_id = 1\<rparr>,
         \<lparr>product_id = 2, name = ''Tack'', price = Fin f_1_01, stock = 1, category_id = 1\<rparr>],
      sqlite_sequence = [(''Categories'', 2), (''Products'', 2)]\<rparr>, open_conns = 0\<rparr>"
    unfolding w4_def 3 by (simp add: add_defs)
  have 5: "w5 = \<lparr>disk = Some \<lparr>Categories = [(1, ''Nails''), (2, ''Screws'')],
      Products = [\<lparr>product_id = 1, name = ''Brad'', price = Fin 1, stock = 1, category_id = 1\<rparr>,
         \<lparr>product_id = 2, name = ''Tack'', price = Fin f_1_01, stock = 1, category_id = 1\<rparr>,
         \<lparr>product_id = 3, name = ''Bolt'', price = Fin f_0_1, stock = 3, category_id = 2\<rparr>],
      sqlite_sequence = [(''Categories'', 2), (''Products'', 3)]\<rparr>, open_conns = 0\<rparr>"
    unfolding w5_def 4 by (simp add: add_defs)
  have 6: "w6 = prices_shop"
    unfolding w6_def 5 by (simp add: add_defs prices_shop_def prices_db_def)
  from r 6 show ?thesis by simp
qed

lemma reachable_bulk_shop: "reachable bulk_shop"
proof -
  define w1 where "w1 = snd (add_category ''Sand'' empty_shop)"
  define w2 where "w2 = snd (add_product ''Grain'' (Float (Fin 1)) (2 ^ 63 - 1) 1 w1)"
  define w3 where "w3 = snd (add_product ''Pebble'' (Float (Fin 1)) 1 1 w2)"
  have r: "reachable w3"
    unfolding w3_def w2_def w1_def
    by (intro reachable.add_product reachable.add_category reachable_empty_shop)
  have 1: "w1 = \<lparr>disk = Some \<lparr>Categories = [(1, ''Sand'')], Products = [],
      sqlite_sequence = [(''Categories'', 1)]\<rparr>, open_conns = 0\<rparr>"
    unfolding w1_def by (simp add: add_defs empty_shop_def empty_db_def)
  have 2: "w2 = \<lparr>disk = Some \<lparr>Categories = [(1, ''Sand'')],
      Products = [\<lparr>product_id = 1, name = ''Grain'', price = Fin 1, stock = 2 ^ 63 - 1,
                   category_id = 1\<rparr>],
      sqlite_sequence = [(''Categories'', 1), (''Products'', 1)]\<rparr>, open_conns = 0\<rparr>"
    unfolding w2_def 1 by (simp add: add_defs)
  have 3: "w3 = bulk_shop"
    unfolding w3_def 2 by (simp add: add_defs bulk_shop_def bulk_db_def)
  from r 3 show ?thesis by simp
qed

text \<open>The engine of the examples does what SQL guarantees.\<close>

lemma engine_ok_sqlite_engine: "engine_ok sqlite_engine"
  by (simp add: engine_ok_def sqlite_engine_def)

section \<open>Referential integrity\<close>

text \<open>
  The schema declares \<open>FOREIGN KEY (category_id) REFERENCES Categories(category_id)\<close>. A
  connection that enforced it would refuse a product whose category does not exist; the
  connections of \<open>get_connection\<close> do not enforce it.
\<close>

lemma get_connection_foreign_keys_off: "foreign_keys (fst (get_connection w)) = False"
  by (simp add: get_connection_def)

lemma insert_product_enforced:
  "cid \<notin> set (map fst (Categories d)) \<Longrightarrow> insert_product True nm pr st cid d = Inl IntegrityError"
  by (simp add: insert_product_def split: option.split)

lemma update_products_enforced:
  "pid \<in> set (map product_id (Products d)) \<Longrightarrow> cid \<notin> set (map fst (Categories d)) \<Longrightarrow>
   update_products True pid nm pr st cid d = Inl IntegrityError"
  by (simp add: update_products_def split: option.split)

lemma no_orphans_delete_category:
  assumes "disk w = Some d" "no_orphans d" "disk (snd (delete_category cid w)) = Some d'"
  shows "no_orphans d'"
proof (cases "int64 cid \<and> cid \<notin> set (map category_id (Products d))")
  case False
  then have "delete_category cid w = (False, w)"
    using assms(1) delete_category_refused [of w d cid] delete_category_unbound [of cid w]
    by blast
  then show ?thesis using assms by simp
next
  case True
  then show ?thesis using assms
    by (fastforce simp: delete_category_free no_orphans_def)
qed

lemma no_orphans_add_category:
  assumes "disk w = Some d" "no_orphans d" "disk (snd (add_category nm w)) = Some d'"
  shows "no_orphans d'"
  using assms
  by (cases "nm \<in> set (map snd (Categories d))")
    (auto simp: add_category_dup add_category_new no_orphans_def)

lemma no_orphans_delete_product:
  assumes "disk w = Some d" "no_orphans d" "disk (snd (delete_product pid w)) = Some d'"
  shows "no_orphans d'"
  using assms
  by (cases "int64 pid") (auto simp: delete_product_done delete_product_unbound no_orphans_def)

lemma no_orphans_add_product:
  assumes "disk w = Some d" "no_orphans d" "c \<in> set (map fst (Categories d))"
    "disk (snd (add_product nm pf st c w)) = Some d'"
  shows "no_orphans d'"
proof (cases "\<not> int64 st \<or> \<not> int64 c \<or> pf = NaN")
  case True
  then show ?thesis using assms by (simp add: add_product_refused)
next
  case False
  then obtain pr where "pf = Float pr" by (cases pf) auto
  with False assms show ?thesis by (simp add: add_product_stored no_orphans_def) force
qed

lemma no_orphans_update_product:
  assumes "disk w = Some d" "no_orphans d" "c \<in> set (map fst (Categories d))"
    "disk (snd (update_product pid nm pf st c w)) = Some d'"
  shows "no_orphans d'"
  using assms(1)
proof (cases rule: update_product_cases [where pid = pid and nm = nm and pf = pf and st = st
      and cid = c])
  case failed
  with assms show ?thesis by simp
next
  case (stored pr)
  with assms show ?thesis by (simp add: no_orphans_def) force
next
  case absent
  with assms show ?thesis by simp
qed

lemma no_orphans_shop_db: "no_orphans shop_db"
  by (simp add: no_orphans_def shop_db_def)

text \<open>
  Claim C1 says that \<open>add_product\<close> returns \<open>False\<close> and inserts nothing when the category
  id matches no category, so that every stored product refers to a category that exists
  when it is written. On the store that \<open>init_db\<close> creates, which has no category at all,
  \<open>add_product\<close> with category id 99 returns \<open>True\<close> and stores the product.
\<close>

theorem add_product_stores_orphan:
  "init_db fresh_file = empty_shop \<and>
   get_all_categories empty_shop = (Inr [], empty_shop) \<and>
   add_product ''Widget'' (Float (Fin 10)) 5 99 empty_shop = (True, orphan_shop) \<and>
   Products orphan_db =
     [\<lparr>product_id = 1, name = ''Widget'', price = Fin 10, stock = 5, category_id = 99\<rparr>] \<and>
   Categories orphan_db = []"
proof -
  have d: "disk empty_shop = Some empty_db" by (simp add: empty_shop_def)
  have "get_all_categories empty_shop = (Inr [], empty_shop)"
    by (simp add: get_all_categories_ok [OF d]) (simp add: empty_db_def)
  then show ?thesis
    by (simp add: init_db_fresh_file add_product_widget) (simp add: orphan_db_def)
qed

section \<open>The guarded delete of a category\<close>

text \<open>
  Claim C2. For every category id that at least one product references, \<open>delete_category\<close>
  returns \<open>False\<close> and leaves everything as it was: the category rows, the product rows,
  both counters of \<open>sqlite_sequence\<close>, and no connection stays open.
\<close>

theorem delete_category_referenced:
  assumes "disk w = Some d" and "cid \<in> set (map category_id (Products d))"
  shows "delete_category cid w = (False, w)"
  using assms by (rule delete_category_refused)

theorem delete_category_referenced_witness:
  "disk shop = Some shop_db \<and> 1 \<in> set (map category_id (Products shop_db)) \<and>
   delete_category 1 shop = (False, shop)"
proof -
  have a: "disk shop = Some shop_db" by (simp add: shop_def)
  have b: "1 \<in> set (map category_id (Products shop_db))" by (simp add: shop_db_def)
  from a b delete_category_referenced [OF a b] show ?thesis by simp
qed

section \<open>Connections on the paths that raise\<close>

text \<open>
  Claim C3 says that every data-access function closes its connection on every exit
  path, the raised exception included. \<open>get_all_categories\<close> has no handler: on a data
  file without the schema its \<open>SELECT\<close> raises \<open>OperationalError\<close>, the exception leaves
  the function, and the connection it opened is still open.
\<close>

theorem get_all_categories_leaks_connection:
  "get_all_categories fresh_file = (Inl OperationalError, \<lparr>disk = None, open_conns = 1\<rparr>)"
  by (simp add: get_all_categories_def conn_defs fresh_file_def)

section \<open>Unique category names\<close>

lemma count_named_absent:
  "nm \<notin> set (map snd cs) \<Longrightarrow> filter (\<lambda>c. snd c = nm) cs = []"
  by (induction cs) auto

lemma count_named_once:
  "distinct (map snd cs) \<Longrightarrow> nm \<in> set (map snd cs) \<Longrightarrow> length (filter (\<lambda>c. snd c = nm) cs) = 1"
proof (induction cs)
  case Nil
  then show ?case by simp
next
  case (Cons c cs)
  show ?case
  proof (cases "snd c = nm")
    case True
    with Cons.prems have "nm \<notin> set (map snd cs)" by auto
    with True show ?thesis by (simp add: count_named_absent)
  next
    case False
    with Cons show ?thesis by auto
  qed
qed

lemma add_category_twice:
  assumes "disk w = Some d" "wf_db d"
  shows "\<exists>d2. disk (snd (add_category nm (snd (add_category nm w)))) = Some d2 \<and> 
          fst (add_category nm (snd (add_category nm w))) = Inr False \<and>
          distinct (map snd (Categories d2)) \<and> nm \<in> set (map snd (Categories d2))"
proof (cases "nm \<in> set (map snd (Categories d))")
  case True
  with assms show ?thesis by (simp add: add_category_dup wf_db_def)
next
  case False
  let ?d1 = "d\<lparr>Categories := Categories d @
       [(next_rowid ''Categories'' (map fst (Categories d)) (sqlite_sequence d), nm)],
     sqlite_sequence := seq_write ''Categories''
       (next_rowid ''Categories'' (map fst (Categories d)) (sqlite_sequence d)) (sqlite_sequence d)\<rparr>"
  have 1: "add_category nm w = (Inr True, w\<lparr>disk := Some ?d1\<rparr>)"
    using assms(1) False by (rule add_category_new)
  have 2: "add_category nm (w\<lparr>disk := Some ?d1\<rparr>) = (Inr False, w\<lparr>disk := Some ?d1\<rparr>)"
    by (rule add_category_dup [where d = ?d1]) simp_all
  show ?thesis using assms(2) False by (simp add: 1 2 wf_db_def)
qed

text \<open>
  Claim C7. \<open>add_category\<close> with a name that a stored category has returns \<open>False\<close>, raises
  nothing and leaves the store as it was. After two calls with the same name the second
  has returned \<open>False\<close> and \<open>get_all_categories\<close> lists exactly one category of that
  name. A failure that is not the violated constraint leaves the function as an error:
  on a data file without the schema the call raises \<open>OperationalError\<close>.
\<close>

theorem add_category_unique_name:
  "(disk w = Some d \<and> nm \<in> set (map snd (Categories d)) \<longrightarrow> add_category nm w = (Inr False, w)) \<and>
   (disk w = Some d \<and> wf_db d \<longrightarrow>
      fst (add_category nm (snd (add_category nm w))) = Inr False \<and>
      (\<exists>cats. fst (get_all_categories (snd (add_category nm (snd (add_category nm w))))) = Inr cats \<and>
          length (filter (\<lambda>c. snd c = nm) cats) = 1)) \<and>
   (disk w = None \<longrightarrow> fst (add_category nm w) = Inl OperationalError)"
proof (intro conjI impI)
  assume "disk w = Some d \<and> nm \<in> set (map snd (Categories d))"
  then show "add_category nm w = (Inr False, w)" by (simp add: add_category_dup)
next
  assume a: "disk w = Some d \<and> wf_db d"
  then obtain d2 where d2: "disk (snd (add_category nm (snd (add_category nm w)))) = Some d2"
      "fst (add_category nm (snd (add_category nm w))) = Inr False"
      "distinct (map snd (Categories d2))" "nm \<in> set (map snd (Categories d2))"
    using add_category_twice [of w d nm] by blast
  show "fst (add_category nm (snd (add_category nm w))) = Inr False" by (rule d2(2))
  have "length (filter (\<lambda>c. snd c = nm) (sort_key fst (Categories d2))) = 1"
    using count_named_once [OF d2(3) d2(4)] by (simp add: filter_sort)
  then show "\<exists>cats. fst (get_all_categories (snd (add_category nm (snd (add_category nm w))))) = Inr cats \<and>
          length (filter (\<lambda>c. snd c = nm) cats) = 1"
    using d2(1) by (simp add: get_all_categories_ok)
next
  assume "disk w = None"
  then show "fst (add_category nm w) = Inl OperationalError"
    by (simp add: add_category_missing_schema)
qed

theorem add_category_unique_name_witness:
  "disk shop = Some shop_db \<and> ''Tools'' \<in> set (map snd (Categories shop_db)) \<and>
   add_category ''Tools'' shop = (Inr False, shop) \<and>
   disk empty_shop = Some empty_db \<and> wf_db empty_db \<and>
   fst (add_category ''Paint'' (snd (add_category ''Paint'' empty_shop))) = Inr False \<and>
   (\<exists>cats. fst (get_all_categories (snd (add_category ''Paint'' (snd (add_category ''Paint'' empty_shop))))) = Inr cats \<and>
          length (filter (\<lambda>c. snd c = ''Paint'') cats) = 1) \<and>
   disk fresh_file = None \<and> fst (add_category ''Paint'' fresh_file) = Inl OperationalError"
proof -
  have a: "disk shop = Some shop_db \<and> ''Tools'' \<in> set (map snd (Categories shop_db))"
    by (simp add: shop_def shop_db_def)
  have b: "disk empty_shop = Some empty_db \<and> wf_db empty_db"
    by (simp add: empty_shop_def wf_empty_db)
  have c: "disk fresh_file = None" by (simp add: fresh_file_def)
  show ?thesis
    using a b c add_category_unique_name [of shop shop_db "''Tools''"]
      add_category_unique_name [of empty_shop empty_db "''Paint''"]
      add_category_unique_name [of fresh_file _ "''Paint''"]
    by blast
qed

end
